theory Spec2Isabelle
  imports Main "HOL-Library.Word"
begin

section \<open>The Direct3D 11 render device of ouzel: data model\<close>

text \<open>
  The development embeds \<^verbatim>\<open>src/engine/graphics/direct3d11/D3D11RenderDevice.cpp\<close>:
  the command switch of \<^verbatim>\<open>RenderDevice::process\<close>, \<^verbatim>\<open>resizeBackBuffer\<close>,
  \<^verbatim>\<open>uploadBuffer\<close>, the rasterizer-state and depth/stencil blocks of
  \<^verbatim>\<open>init\<close>, \<^verbatim>\<open>renderMain\<close> and the destructor.

  Machine integers: \<^verbatim>\<open>UINT\<close> and \<^verbatim>\<open>std::uint32_t\<close> are 32-bit words,
  resource handles (\<^verbatim>\<open>std::size_t\<close>) are 64-bit words, so that \<^verbatim>\<open>handle - 1\<close>
  wraps as it does in C++. A \<^verbatim>\<open>float\<close> is carried as its 32-bit pattern: the
  device only passes floats on, and no floating-point arithmetic is modelled.
  An \<^verbatim>\<open>HRESULT\<close> is an integer and \<^verbatim>\<open>FAILED(hr)\<close> is \<open>hr < 0\<close>.
  Objects (COM objects of the backend and the resource objects the table owns) are
  told apart by an address, a natural number handed out by a counter.
\<close>

type_synonym UINT = "32 word"
type_synonym size_t = "64 word"
type_synonym float = "32 word"
type_synonym HRESULT = int
type_synonym addr = nat

definition FAILED :: "HRESULT \<Rightarrow> bool" where
  "FAILED hr = (hr < 0)"

text \<open>
  Exceptions of the source are \<^verbatim>\<open>std::runtime_error\<close> and \<^verbatim>\<open>std::system_error\<close>,
  both derived from \<^verbatim>\<open>std::exception\<close>. What C++ leaves undefined (an index outside
  a vector, a null or dangling pointer dereferenced) and a failed \<^verbatim>\<open>assert\<close> is
  not an exception: nothing catches it, and the model stops there with \<open>Fatal\<close>.
\<close>

datatype exn = runtime_error string | system_error HRESULT string

datatype fault = Thrown exn | Fatal string

text \<open>
  Enumerations of the engine. A C++ \<^verbatim>\<open>enum class\<close> object can hold a value that
  is none of its enumerators; the switches of the source have a \<^verbatim>\<open>default\<close> branch
  for it, and each enumeration here has one more constructor for such a value.
\<close>

datatype CullMode = cull_none | cull_front | cull_back | cull_invalid

datatype FillMode = fill_solid | fill_wireframe | fill_invalid

datatype DrawMode = pointList | lineList | lineStrip | triangleList | triangleStrip | draw_invalid

datatype DXGI_FORMAT =
    DXGI_FORMAT_UNKNOWN
  | DXGI_FORMAT_R16_UINT
  | DXGI_FORMAT_R32_UINT
  | DXGI_FORMAT_R8G8B8A8_UNORM
  | DXGI_FORMAT_D24_UNORM_S8_UINT
  | DXGI_FORMAT_D32_FLOAT

datatype D3D_PRIMITIVE_TOPOLOGY =
    D3D_PRIMITIVE_TOPOLOGY_POINTLIST
  | D3D_PRIMITIVE_TOPOLOGY_LINELIST
  | D3D_PRIMITIVE_TOPOLOGY_LINESTRIP
  | D3D_PRIMITIVE_TOPOLOGY_TRIANGLELIST
  | D3D_PRIMITIVE_TOPOLOGY_TRIANGLESTRIP

datatype D3D11_FILL_MODE = D3D11_FILL_SOLID | D3D11_FILL_WIREFRAME

datatype D3D11_CULL_MODE = D3D11_CULL_NONE | D3D11_CULL_FRONT | D3D11_CULL_BACK

record D3D11_RASTERIZER_DESC =
  descFillMode :: D3D11_FILL_MODE
  descCullMode :: D3D11_CULL_MODE
  descScissorEnable :: bool
  descMultisampleEnable :: bool

record D3D11_TEXTURE2D_DESC =
  Width :: UINT
  Height :: UINT
  Format :: DXGI_FORMAT
  SampleCount :: UINT

text \<open>A COM object with its address; a texture and a rasterizer state keep their description.\<close>

record ID3D11Texture2D =
  texAddr :: addr
  texDesc :: D3D11_TEXTURE2D_DESC

record ID3D11View =
  viewAddr :: addr
  viewOf :: addr

record ID3D11RasterizerState =
  rsAddr :: addr
  rsDesc :: D3D11_RASTERIZER_DESC

record Color =
  colorR :: "8 word"
  colorG :: "8 word"
  colorB :: "8 word"
  colorA :: "8 word"

record RectF =
  positionX :: float
  positionY :: float
  sizeX :: float
  sizeY :: float

subsection \<open>Resources owned by the resource table\<close>

text \<open>
  The classes \<^verbatim>\<open>BlendState\<close>, \<^verbatim>\<open>Buffer\<close>, \<^verbatim>\<open>DepthStencilState\<close>,
  \<^verbatim>\<open>RenderTarget\<close>, \<^verbatim>\<open>Shader\<close> and \<^verbatim>\<open>Texture\<close> are declared in headers
  outside the sources at hand; a resource keeps the members the device reads through
  the getters it calls. \<^verbatim>\<open>Shader::Location\<close> is kept as its \<^verbatim>\<open>size\<close> member.
\<close>

record BufferRes =
  getBuffer :: "addr option"
  getSize :: UINT

record RenderTargetRes =
  getRenderTargetViews :: "addr list"
  getDepthStencilView :: "addr option"

record ShaderRes =
  getFragmentShader :: "addr option"
  getVertexShader :: "addr option"
  getInputLayout :: "addr option"
  getFragmentShaderConstantBuffer :: addr
  getVertexShaderConstantBuffer :: addr
  getFragmentShaderConstantLocations :: "UINT list"
  getVertexShaderConstantLocations :: "UINT list"

record TextureRes =
  getTexture :: addr
  getResourceView :: "addr option"
  getSamplerState :: "addr option"
  getTextureRenderTargetView :: "addr option"
  getTextureDepthStencilView :: "addr option"

datatype RenderResource =
    BlendState addr
  | Buffer BufferRes
  | DepthStencilState addr
  | RenderTarget RenderTargetRes
  | Shader ShaderRes
  | Texture TextureRes

subsection \<open>Calls into the backend\<close>

text \<open>
  The device context, the swap chain and the D3D11 device are external. Every call
  the modelled code makes on them is appended to a log, in order, with the arguments
  the code passes; methods of the resource classes that live outside the sources are
  logged as \<open>ResourceMethod\<close> and their constructors as \<open>ConstructResource\<close>.
\<close>

datatype backend_call =
    SwapChain_Present UINT
  | SwapChain_ResizeBuffers UINT UINT
  | SwapChain_GetBuffer
  | Device_CreateRenderTargetView addr
  | Device_CreateTexture2D D3D11_TEXTURE2D_DESC
  | Device_CreateDepthStencilView addr
  | Device_CreateRasterizerState D3D11_RASTERIZER_DESC
  | OMSetRenderTargets "addr option list" "addr option"
  | ClearRenderTargetView "addr option" Color
  | ClearDepthStencilView "addr option" bool bool float "8 word"
  | CopySubresourceRegion addr UINT UINT UINT addr UINT UINT UINT UINT UINT
  | RSSetScissorRects RectF
  | RSSetState "ID3D11RasterizerState option"
  | RSSetViewports RectF
  | OMSetDepthStencilState "addr option" UINT
  | OMSetBlendState "addr option"
  | PSSetShader "addr option"
  | VSSetShader "addr option"
  | IASetInputLayout "addr option"
  | IASetVertexBuffers "addr option"
  | IASetIndexBuffer "addr option" DXGI_FORMAT
  | IASetPrimitiveTopology D3D_PRIMITIVE_TOPOLOGY
  | DrawIndexed UINT UINT
  | Context_Map addr
  | CopyBytes addr "float list" UINT
  | Context_Unmap addr
  | PSSetConstantBuffers addr
  | VSSetConstantBuffers addr
  | PSSetShaderResources "addr option list"
  | PSSetSamplers "addr option list"
  | RenderTarget_resolve addr
  | ResourceMethod addr string
  | ConstructResource string

subsection \<open>The device\<close>

text \<open>
  The members of \<^verbatim>\<open>RenderDevice\<close> that \<^verbatim>\<open>process\<close>, \<^verbatim>\<open>resizeBackBuffer\<close>
  and \<^verbatim>\<open>renderMain\<close> read or write, followed by the state of the world around it:
  the objects the table's \<^verbatim>\<open>unique_ptr\<close>s own (\<open>objects\<close>), the backend's call
  log, the results its fallible calls are going to return (\<open>hresults\<close>, consumed one
  per fallible call; \<open>S_OK\<close> once the list is used up), its address counter, the
  swap chain's current buffer and the client area of the window, and the engine's error log.
  The command queue is passed beside the device, since no command touches it.
\<close>

record RenderDevice =
  running :: bool
  depth :: bool
  stencil :: bool
  sampleCount :: UINT
  swapInterval :: UINT
  frameBufferWidth :: UINT
  frameBufferHeight :: UINT
  backBuffer :: "ID3D11Texture2D option"
  renderTargetView :: "ID3D11View option"
  depthStencilTexture :: "ID3D11Texture2D option"
  depthStencilView :: "ID3D11View option"
  defaultDepthStencilState :: "addr option"
  rasterizerStates :: "ID3D11RasterizerState option list"
  resources :: "addr option list"
  objects :: "addr \<rightharpoonup> RenderResource"
  calls :: "backend_call list"
  hresults :: "HRESULT list"
  nextObject :: addr
  swapChainBuffer :: ID3D11Texture2D
  clientWidth :: UINT
  clientHeight :: UINT
  errorLog :: "exn list"

text \<open>The locals of \<^verbatim>\<open>process\<close> that live across commands, with their initial values.\<close>

record locals =
  shaderData :: "float list"
  fillModeIndex :: nat
  scissorEnableIndex :: nat
  cullModeIndex :: nat
  currentRenderTarget :: "addr option"
  currentShader :: "addr option"
  currentResourceViews :: "addr option list"
  currentSamplerStates :: "addr option list"

definition initialLocals :: locals where
  "initialLocals =
     \<lparr>shaderData = [], fillModeIndex = 0, scissorEnableIndex = 0, cullModeIndex = 0,
      currentRenderTarget = None, currentShader = None,
      currentResourceViews = [], currentSamplerStates = []\<rparr>"

section \<open>The backend collaborator\<close>

definition call :: "backend_call \<Rightarrow> RenderDevice \<Rightarrow> RenderDevice" where
  "call c d = d\<lparr>calls := calls d @ [c]\<rparr>"

text \<open>A fallible call is logged and takes its \<^verbatim>\<open>HRESULT\<close> from the head of \<open>hresults\<close>.\<close>

definition fallible :: "backend_call \<Rightarrow> RenderDevice \<Rightarrow> HRESULT \<times> RenderDevice" where
  "fallible c d =
     (case hresults d of
        [] \<Rightarrow> (0, call c d)
      | hr # hrs \<Rightarrow> (hr, (call c d)\<lparr>hresults := hrs\<rparr>))"

definition newObject :: "RenderDevice \<Rightarrow> addr \<times> RenderDevice" where
  "newObject d = (nextObject d, d\<lparr>nextObject := Suc (nextObject d)\<rparr>)"

text \<open>
  \<^verbatim>\<open>IDXGISwapChain::ResizeBuffers\<close>: on success the swap chain has a new buffer of
  the requested size; DXGI takes the client area of the window for a dimension that is
  requested as zero. \<^verbatim>\<open>GetBuffer(0, ...)\<close> hands out the swap chain's buffer.
\<close>

definition ResizeBuffers :: "UINT \<Rightarrow> UINT \<Rightarrow> RenderDevice \<Rightarrow> HRESULT \<times> RenderDevice" where
  "ResizeBuffers w h d =
     (let (hr, d1) = fallible (SwapChain_ResizeBuffers w h) d in
      if FAILED hr then (hr, d1)
      else
        let (a, d2) = newObject d1 in
        (hr, d2\<lparr>swapChainBuffer :=
                  \<lparr>texAddr = a,
                   texDesc = (texDesc (swapChainBuffer d2))
                     \<lparr>Width := (if w = 0 then clientWidth d2 else w),
                      Height := (if h = 0 then clientHeight d2 else h)\<rparr>\<rparr>\<rparr>))"

definition GetBuffer :: "RenderDevice \<Rightarrow> HRESULT \<times> ID3D11Texture2D \<times> RenderDevice" where
  "GetBuffer d =
     (let (hr, d1) = fallible SwapChain_GetBuffer d in (hr, swapChainBuffer d1, d1))"

definition CreateRenderTargetView ::
  "ID3D11Texture2D option \<Rightarrow> RenderDevice \<Rightarrow> HRESULT \<times> ID3D11View \<times> RenderDevice" where
  "CreateRenderTargetView t d =
     (let r = (case t of None \<Rightarrow> 0 | Some x \<Rightarrow> texAddr x);
          (hr, d1) = fallible (Device_CreateRenderTargetView r) d;
          (a, d2) = newObject d1
      in (hr, \<lparr>viewAddr = a, viewOf = r\<rparr>, d2))"

definition CreateTexture2D ::
  "D3D11_TEXTURE2D_DESC \<Rightarrow> RenderDevice \<Rightarrow> HRESULT \<times> ID3D11Texture2D \<times> RenderDevice" where
  "CreateTexture2D desc d =
     (let (hr, d1) = fallible (Device_CreateTexture2D desc) d;
          (a, d2) = newObject d1
      in (hr, \<lparr>texAddr = a, texDesc = desc\<rparr>, d2))"

definition CreateDepthStencilView ::
  "ID3D11Texture2D option \<Rightarrow> RenderDevice \<Rightarrow> HRESULT \<times> ID3D11View \<times> RenderDevice" where
  "CreateDepthStencilView t d =
     (let r = (case t of None \<Rightarrow> 0 | Some x \<Rightarrow> texAddr x);
          (hr, d1) = fallible (Device_CreateDepthStencilView r) d;
          (a, d2) = newObject d1
      in (hr, \<lparr>viewAddr = a, viewOf = r\<rparr>, d2))"

definition CreateRasterizerState ::
  "D3D11_RASTERIZER_DESC \<Rightarrow> RenderDevice \<Rightarrow> HRESULT \<times> ID3D11RasterizerState \<times> RenderDevice" where
  "CreateRasterizerState desc d =
     (let (hr, d1) = fallible (Device_CreateRasterizerState desc) d;
          (a, d2) = newObject d1
      in (hr, \<lparr>rsAddr = a, rsDesc = desc\<rparr>, d2))"

section \<open>\<^verbatim>\<open>RenderDevice::init\<close>: the rasterizer-state table and the depth/stencil attachment\<close>

text \<open>
  Lines 272 to 299: three nested counting loops fill \<^verbatim>\<open>rasterizerStates\<close> in the
  order fill mode (2 values), scissor enable (2 values), cull mode (3 values), at a
  running index. Each loop is a recursion on the number of iterations left; the
  first failed \<^verbatim>\<open>CreateRasterizerState\<close> throws.
\<close>

definition fillModeCount :: nat where "fillModeCount = 2"
definition scissorModeCount :: nat where "scissorModeCount = 2"
definition cullModeCount :: nat where "cullModeCount = 3"

definition rasterStateDesc :: "RenderDevice \<Rightarrow> nat \<Rightarrow> nat \<Rightarrow> nat \<Rightarrow> D3D11_RASTERIZER_DESC" where
  "rasterStateDesc d fillMode scissorEnable cullMode =
     \<lparr>descFillMode = (if fillMode = 0 then D3D11_FILL_SOLID else D3D11_FILL_WIREFRAME),
      descCullMode = (if cullMode = 0 then D3D11_CULL_NONE
                      else if cullMode = 1 then D3D11_CULL_FRONT else D3D11_CULL_BACK),
      descScissorEnable = (scissorEnable \<noteq> 0),
      descMultisampleEnable = (1 < unat (sampleCount d))\<rparr>"

fun cullModeLoop :: "nat \<Rightarrow> nat \<Rightarrow> nat \<Rightarrow> nat \<Rightarrow> RenderDevice \<Rightarrow> exn option \<times> nat \<times> RenderDevice" where
  "cullModeLoop 0 fillMode scissorEnable rasterStateIndex d = (None, rasterStateIndex, d)"
| "cullModeLoop (Suc left) fillMode scissorEnable rasterStateIndex d =
     (let cullMode = cullModeCount - Suc left;
          (hr, newRasterizerState, d1) =
             CreateRasterizerState (rasterStateDesc d fillMode scissorEnable cullMode) d
      in if FAILED hr
         then (Some (system_error hr ''Failed to create Direct3D 11 rasterizer state''),
               rasterStateIndex, d1)
         else cullModeLoop left fillMode scissorEnable (Suc rasterStateIndex)
                (d1\<lparr>rasterizerStates :=
                      (rasterizerStates d1)[rasterStateIndex := Some newRasterizerState]\<rparr>))"

fun scissorEnableLoop :: "nat \<Rightarrow> nat \<Rightarrow> nat \<Rightarrow> RenderDevice \<Rightarrow> exn option \<times> nat \<times> RenderDevice" where
  "scissorEnableLoop 0 fillMode rasterStateIndex d = (None, rasterStateIndex, d)"
| "scissorEnableLoop (Suc left) fillMode rasterStateIndex d =
     (case cullModeLoop cullModeCount fillMode (scissorModeCount - Suc left) rasterStateIndex d of
        (Some e, i, d1) \<Rightarrow> (Some e, i, d1)
      | (None, i, d1) \<Rightarrow> scissorEnableLoop left fillMode i d1)"

fun fillModeLoop :: "nat \<Rightarrow> nat \<Rightarrow> RenderDevice \<Rightarrow> exn option \<times> nat \<times> RenderDevice" where
  "fillModeLoop 0 rasterStateIndex d = (None, rasterStateIndex, d)"
| "fillModeLoop (Suc left) rasterStateIndex d =
     (case scissorEnableLoop scissorModeCount (fillModeCount - Suc left) rasterStateIndex d of
        (Some e, i, d1) \<Rightarrow> (Some e, i, d1)
      | (None, i, d1) \<Rightarrow> fillModeLoop left i d1)"

text \<open>The array member has twelve entries, null until \<^verbatim>\<open>init\<close> fills them.\<close>

definition initRasterizerStates :: "RenderDevice \<Rightarrow> exn option \<times> RenderDevice" where
  "initRasterizerStates d =
     (case fillModeLoop fillModeCount 0 (d\<lparr>rasterizerStates := replicate 12 None\<rparr>) of
        (e, i, d1) \<Rightarrow> (e, d1))"

text \<open>Reading the array at an index; the indices the device computes are below twelve.\<close>

definition rasterizerStateAt :: "RenderDevice \<Rightarrow> nat \<Rightarrow> ID3D11RasterizerState option" where
  "rasterizerStateAt d i = (if i < length (rasterizerStates d) then rasterizerStates d ! i else None)"

text \<open>Lines 301 to 327: the depth/stencil texture and view of the default framebuffer.\<close>

definition initDepthStencil :: "RenderDevice \<Rightarrow> exn option \<times> RenderDevice" where
  "initDepthStencil d =
     (if depth d then
        (let depthStencilDesc =
               \<lparr>Width = frameBufferWidth d, Height = frameBufferHeight d,
                Format = (if stencil d then DXGI_FORMAT_D24_UNORM_S8_UINT else DXGI_FORMAT_D32_FLOAT),
                SampleCount = sampleCount d\<rparr>;
             (hr1, newDepthStencilTexture, d1) = CreateTexture2D depthStencilDesc d
         in if FAILED hr1
            then (Some (system_error hr1 ''Failed to create Direct3D 11 depth stencil texture''), d1)
            else
              let d2 = d1\<lparr>depthStencilTexture := Some newDepthStencilTexture\<rparr>;
                  (hr2, newDepthStencilView, d3) = CreateDepthStencilView (depthStencilTexture d2) d2
              in if FAILED hr2
                 then (Some (system_error hr2 ''Failed to create Direct3D 11 depth stencil view''), d3)
                 else (None, d3\<lparr>depthStencilView := Some newDepthStencilView\<rparr>))
      else (None, d))"

section \<open>\<^verbatim>\<open>RenderDevice::resizeBackBuffer\<close> and \<^verbatim>\<open>RenderDevice::uploadBuffer\<close>\<close>

definition resizeBackBuffer :: "UINT \<Rightarrow> UINT \<Rightarrow> RenderDevice \<Rightarrow> exn option \<times> RenderDevice" where
  "resizeBackBuffer newWidth newHeight d =
     (if frameBufferWidth d \<noteq> newWidth \<or> frameBufferHeight d \<noteq> newHeight then
        (let (hr1, d1) = ResizeBuffers newWidth newHeight d in
         if FAILED hr1
         then (Some (system_error hr1 ''Failed to resize Direct3D 11 backbuffer''), d1)
         else
           let (hr2, newBackBuffer, d2) = GetBuffer d1 in
           if FAILED hr2
           then (Some (system_error hr2 ''Failed to retrieve Direct3D 11 backbuffer''), d2)
           else
             let d3 = d2\<lparr>backBuffer := Some newBackBuffer\<rparr>;
                 (hr3, newRenderTargetView, d4) = CreateRenderTargetView (backBuffer d3) d3
             in if FAILED hr3
                then (Some (system_error hr3 ''Failed to create Direct3D 11 render target view''), d4)
                else
                  let d5 = d4\<lparr>renderTargetView := Some newRenderTargetView\<rparr>;
                      desc = texDesc newBackBuffer
                  in if depth d5 then
                       (let depthStencilDesc =
                              \<lparr>Width = Width desc, Height = Height desc,
                               Format = DXGI_FORMAT_D32_FLOAT, SampleCount = sampleCount d5\<rparr>;
                            (hr4, newDepthStencilTexture, d6) = CreateTexture2D depthStencilDesc d5
                        in if FAILED hr4
                           then (Some (system_error hr4
                                   ''Failed to create Direct3D 11 depth stencil texture''), d6)
                           else
                             let d7 = d6\<lparr>depthStencilTexture := Some newDepthStencilTexture\<rparr>;
                                 (hr5, newDepthStencilView, d8) =
                                    CreateDepthStencilView (depthStencilTexture d7) d7
                             in if FAILED hr5
                                then (Some (system_error hr5
                                        ''Failed to create Direct3D 11 depth stencil view''), d8)
                                else (None, d8\<lparr>depthStencilView := Some newDepthStencilView,
                                                frameBufferWidth := Width desc,
                                                frameBufferHeight := Height desc\<rparr>))
                     else (None, d5\<lparr>frameBufferWidth := Width desc,
                                     frameBufferHeight := Height desc\<rparr>))
      else (None, d))"

text \<open>
  \<^verbatim>\<open>uploadBuffer\<close>: \<^verbatim>\<open>Map\<close>, which can fail, then the copy of \<open>dataSize\<close> bytes
  and \<^verbatim>\<open>Unmap\<close>.
\<close>

definition uploadBuffer :: "addr \<Rightarrow> float list \<Rightarrow> UINT \<Rightarrow> RenderDevice \<Rightarrow> exn option \<times> RenderDevice" where
  "uploadBuffer buffer data dataSize d =
     (let (hr, d1) = fallible (Context_Map buffer) d in
      if FAILED hr
      then (Some (system_error hr ''Failed to lock Direct3D 11 buffer''), d1)
      else (None, call (Context_Unmap buffer) (call (CopyBytes buffer data dataSize) d1)))"

section \<open>Commands\<close>

text \<open>
  One constructor per \<^verbatim>\<open>Command::Type\<close> the switch of \<^verbatim>\<open>process\<close> handles, with
  the members of the command class the device reads, in the order given below, and
  \<open>InvalidCommand\<close> for a type tag outside the enumeration (the \<^verbatim>\<open>default\<close>
  branch). Members that are only passed on to a resource constructor outside the
  sources (blend factors, stencil operations, shader byte code, pixel data) are left out.

  \<^item> \<open>ResizeCommand size.v[0] size.v[1]\<close>
  \<^item> \<open>DeleteResourceCommand resource\<close>
  \<^item> \<open>InitRenderTargetCommand renderTarget colorTextures depthTexture\<close>
  \<^item> \<open>SetRenderTargetCommand renderTarget\<close>
  \<^item> \<open>ClearRenderTargetCommand clearColorBuffer clearDepthBuffer clearStencilBuffer
      clearColor clearDepth clearStencil\<close>
  \<^item> \<open>BlitCommand sourceTexture sourceLevel sourceX sourceY sourceWidth sourceHeight
      destinationTexture destinationLevel destinationX destinationY\<close>
  \<^item> \<open>SetScissorTestCommand enabled rectangle\<close>
  \<^item> \<open>SetViewportCommand viewport\<close>
  \<^item> \<open>InitDepthStencilStateCommand depthStencilState\<close>
  \<^item> \<open>SetDepthStencilStateCommand depthStencilState stencilReferenceValue\<close>
  \<^item> \<open>SetPipelineStateCommand blendState shader cullMode fillMode\<close>
  \<^item> \<open>DrawCommand indexBuffer indexCount indexSize vertexBuffer drawMode startIndex\<close>
  \<^item> \<open>InitBlendStateCommand blendState\<close>
  \<^item> \<open>InitBufferCommand buffer size\<close>
  \<^item> \<open>SetBufferDataCommand buffer\<close>
  \<^item> \<open>InitShaderCommand shader fragmentShaderConstantInfo vertexShaderConstantInfo\<close>,
      each constant info entry kept as the byte size of its data type
  \<^item> \<open>SetShaderConstantsCommand fragmentShaderConstants vertexShaderConstants\<close>
  \<^item> \<open>InitTextureCommand texture bindRenderTarget depthFormat\<close>, the two flags being
      what of \<^verbatim>\<open>flags\<close> and \<^verbatim>\<open>pixelFormat\<close> decides which views the texture has
  \<^item> \<open>SetTextureDataCommand texture\<close>, \<open>SetTextureParametersCommand texture\<close>
  \<^item> \<open>SetTexturesCommand textures\<close>
\<close>

datatype Command =
    ResizeCommand UINT UINT
  | PresentCommand
  | DeleteResourceCommand size_t
  | InitRenderTargetCommand size_t "size_t list" size_t
  | SetRenderTargetCommand size_t
  | ClearRenderTargetCommand bool bool bool Color float UINT
  | BlitCommand size_t UINT UINT UINT UINT UINT size_t UINT UINT UINT
  | SetScissorTestCommand bool RectF
  | SetViewportCommand RectF
  | InitDepthStencilStateCommand size_t
  | SetDepthStencilStateCommand size_t UINT
  | SetPipelineStateCommand size_t size_t CullMode FillMode
  | DrawCommand size_t UINT UINT size_t DrawMode UINT
  | PushDebugMarkerCommand string
  | PopDebugMarkerCommand
  | InitBlendStateCommand size_t
  | InitBufferCommand size_t UINT
  | SetBufferDataCommand size_t
  | InitShaderCommand size_t "UINT list" "UINT list"
  | SetShaderConstantsCommand "float list list" "float list list"
  | InitTextureCommand size_t bool bool
  | SetTextureDataCommand size_t
  | SetTextureParametersCommand size_t
  | SetTexturesCommand "size_t list"
  | InvalidCommand

type_synonym CommandBuffer = "Command list"

type_synonym step = "fault option \<times> locals \<times> RenderDevice"

section \<open>The resource table\<close>

definition asBlendState :: "RenderResource \<Rightarrow> addr option" where
  "asBlendState r = (case r of BlendState a \<Rightarrow> Some a | _ \<Rightarrow> None)"

definition asBuffer :: "RenderResource \<Rightarrow> BufferRes option" where
  "asBuffer r = (case r of Buffer b \<Rightarrow> Some b | _ \<Rightarrow> None)"

definition asDepthStencilState :: "RenderResource \<Rightarrow> addr option" where
  "asDepthStencilState r = (case r of DepthStencilState a \<Rightarrow> Some a | _ \<Rightarrow> None)"

definition asRenderTarget :: "RenderResource \<Rightarrow> RenderTargetRes option" where
  "asRenderTarget r = (case r of RenderTarget t \<Rightarrow> Some t | _ \<Rightarrow> None)"

definition asShader :: "RenderResource \<Rightarrow> ShaderRes option" where
  "asShader r = (case r of Shader s \<Rightarrow> Some s | _ \<Rightarrow> None)"

definition asTexture :: "RenderResource \<Rightarrow> TextureRes option" where
  "asTexture r = (case r of Texture t \<Rightarrow> Some t | _ \<Rightarrow> None)"

text \<open>
  Modelled from the spec: \<^verbatim>\<open>getResource<T>(id)\<close> is a member template declared in
  \<^verbatim>\<open>D3D11RenderDevice.hpp\<close>, which is not among the sources. The specification
  gives its contract: handle 0 means "no resource" (the callers in \<^verbatim>\<open>process\<close> test
  the result against null), a handle addresses slot \<open>handle - 1\<close>, and "get on an empty
  or out-of-range slot is a programmer error (fails fatally)". A slot whose object is
  not of the class asked for is fatal as well (the \<^verbatim>\<open>static_cast\<close> is then undefined).
  The result is the address of the object with its contents.
\<close>

definition getResource ::
  "(RenderResource \<Rightarrow> 'a option) \<Rightarrow> RenderDevice \<Rightarrow> size_t \<Rightarrow> fault + (addr \<times> 'a) option" where
  "getResource as d handle =
     (if handle = 0 then Inr None
      else if unat (handle - 1) < length (resources d) then
        (case resources d ! unat (handle - 1) of
           None \<Rightarrow> Inl (Fatal ''getResource: empty slot'')
         | Some a \<Rightarrow>
             (case objects d a of
                None \<Rightarrow> Inl (Fatal ''getResource: empty slot'')
              | Some r \<Rightarrow>
                  (case as r of
                     None \<Rightarrow> Inl (Fatal ''getResource: wrong resource class'')
                   | Some x \<Rightarrow> Inr (Some (a, x)))))
      else Inl (Fatal ''getResource: slot out of range''))"

text \<open>
  A raw pointer kept in a local of \<^verbatim>\<open>process\<close> (\<^verbatim>\<open>currentShader\<close>,
  \<^verbatim>\<open>currentRenderTarget\<close>) is an address; using it reads the object store, and is
  undefined once the owning slot has released the object.
\<close>

definition deref :: "(RenderResource \<Rightarrow> 'a option) \<Rightarrow> RenderDevice \<Rightarrow> addr \<Rightarrow> fault + 'a" where
  "deref as d a =
     (case objects d a of
        None \<Rightarrow> Inl (Fatal ''dangling pointer'')
      | Some r \<Rightarrow>
          (case as r of
             None \<Rightarrow> Inl (Fatal ''pointer to another resource class'')
           | Some x \<Rightarrow> Inr x))"

text \<open>
  \<^verbatim>\<open>std::make_unique\<close> puts the new object at a fresh address. Then every
  \<^verbatim>\<open>init*\<close> case of the switch does
  \<^verbatim>\<open>if (id > resources.size()) resources.resize(id); resources[id - 1] = std::move(ptr);\<close>
  where \<^verbatim>\<open>resize\<close> appends empty slots and the move assignment destroys the object the
  slot owned before. The index \<^verbatim>\<open>id - 1\<close> wraps for \<^verbatim>\<open>id = 0\<close>; an index outside
  the vector is undefined in C++.
\<close>

definition makeUnique :: "RenderResource \<Rightarrow> RenderDevice \<Rightarrow> addr \<times> RenderDevice" where
  "makeUnique r d =
     (let (a, d1) = newObject d in (a, d1\<lparr>objects := (objects d1)(a \<mapsto> r)\<rparr>))"

definition release :: "addr option \<Rightarrow> RenderDevice \<Rightarrow> RenderDevice" where
  "release p d = (case p of None \<Rightarrow> d | Some a \<Rightarrow> d\<lparr>objects := (objects d)(a := None)\<rparr>)"

definition assignResource :: "size_t \<Rightarrow> addr \<Rightarrow> RenderDevice \<Rightarrow> fault option \<times> RenderDevice" where
  "assignResource handle a d =
     (let d1 = (if length (resources d) < unat handle
                then d\<lparr>resources := resources d @ replicate (unat handle - length (resources d)) None\<rparr>
                else d)
      in if unat (handle - 1) < length (resources d1)
         then (None, (release (resources d1 ! unat (handle - 1)) d1)
                       \<lparr>resources := (resources d1)[unat (handle - 1) := Some a]\<rparr>)
         else (Some (Fatal ''resources: index out of range''), d1))"

text \<open>
  Modelled from the spec: the constructors of the resource classes are in files that
  are not among the sources. The specification treats them as the backend collaborator,
  which creates the native objects or fails with a backend error. A constructor is one
  logged fallible call; on success the native objects it holds get fresh addresses.
\<close>

definition construct :: "string \<Rightarrow> RenderDevice \<Rightarrow> exn option \<times> RenderDevice" where
  "construct name d =
     (let (hr, d1) = fallible (ConstructResource name) d in
      if FAILED hr then (Some (system_error hr name), d1) else (None, d1))"

definition initResource ::
  "string \<Rightarrow> (RenderDevice \<Rightarrow> RenderResource \<times> RenderDevice) \<Rightarrow> size_t \<Rightarrow> locals \<Rightarrow> RenderDevice \<Rightarrow> step" where
  "initResource name build handle l d =
     (case construct name d of
        (Some e, d1) \<Rightarrow> (Some (Thrown e), l, d1)
      | (None, d1) \<Rightarrow>
          (let (r, d2) = build d1;
               (a, d3) = makeUnique r d2;
               (f, d4) = assignResource handle a d3
           in (f, l, d4)))"

definition buildBlendState :: "RenderDevice \<Rightarrow> RenderResource \<times> RenderDevice" where
  "buildBlendState d = (let (a, d1) = newObject d in (BlendState a, d1))"

definition buildDepthStencilState :: "RenderDevice \<Rightarrow> RenderResource \<times> RenderDevice" where
  "buildDepthStencilState d = (let (a, d1) = newObject d in (DepthStencilState a, d1))"

definition buildBuffer :: "UINT \<Rightarrow> RenderDevice \<Rightarrow> RenderResource \<times> RenderDevice" where
  "buildBuffer initSize d =
     (if initSize = 0 then (Buffer \<lparr>getBuffer = None, getSize = initSize\<rparr>, d)
      else let (a, d1) = newObject d in (Buffer \<lparr>getBuffer = Some a, getSize = initSize\<rparr>, d1))"

definition buildShader :: "UINT list \<Rightarrow> UINT list \<Rightarrow> RenderDevice \<Rightarrow> RenderResource \<times> RenderDevice" where
  "buildShader fragmentInfo vertexInfo d =
     (let (a1, d1) = newObject d; (a2, d2) = newObject d1; (a3, d3) = newObject d2;
          (a4, d4) = newObject d3; (a5, d5) = newObject d4
      in (Shader \<lparr>getFragmentShader = Some a1, getVertexShader = Some a2,
                  getInputLayout = Some a3,
                  getFragmentShaderConstantBuffer = a4, getVertexShaderConstantBuffer = a5,
                  getFragmentShaderConstantLocations = fragmentInfo,
                  getVertexShaderConstantLocations = vertexInfo\<rparr>, d5))"

definition buildTexture :: "bool \<Rightarrow> bool \<Rightarrow> RenderDevice \<Rightarrow> RenderResource \<times> RenderDevice" where
  "buildTexture bindRenderTarget depthFormat d =
     (let (a1, d1) = newObject d; (a2, d2) = newObject d1; (a3, d3) = newObject d2;
          (a4, d4) = newObject d3
      in (Texture \<lparr>getTexture = a1, getResourceView = Some a2, getSamplerState = Some a3,
                   getTextureRenderTargetView =
                     (if bindRenderTarget \<and> \<not> depthFormat then Some a4 else None),
                   getTextureDepthStencilView =
                     (if bindRenderTarget \<and> depthFormat then Some a4 else None)\<rparr>, d4))"

text \<open>
  The render target's constructor takes the \<^verbatim>\<open>std::set\<close> of colour texture pointers
  (ordered by address, without repetition, a null pointer for handle 0 left aside) and
  the depth texture pointer, and keeps their views.
\<close>

definition buildRenderTarget ::
  "(addr \<times> TextureRes) option list \<Rightarrow> (addr \<times> TextureRes) option \<Rightarrow> RenderDevice
     \<Rightarrow> RenderResource \<times> RenderDevice" where
  "buildRenderTarget colorTextures depthTexture d =
     (RenderTarget
        \<lparr>getRenderTargetViews =
           List.map_filter (\<lambda>(a, t). getTextureRenderTargetView t)
             (sort_key fst (remdups (List.map_filter id colorTextures))),
         getDepthStencilView =
           (case depthTexture of None \<Rightarrow> None | Some (a, t) \<Rightarrow> getTextureDepthStencilView t)\<rparr>, d)"

text \<open>A method of a resource class outside the sources: one logged fallible call.\<close>

definition resourceMethod :: "addr \<Rightarrow> string \<Rightarrow> RenderDevice \<Rightarrow> exn option \<times> RenderDevice" where
  "resourceMethod a name d =
     (let (hr, d1) = fallible (ResourceMethod a name) d in
      if FAILED hr then (Some (system_error hr name), d1) else (None, d1))"

section \<open>The cases of the switch in \<^verbatim>\<open>RenderDevice::process\<close>\<close>

text \<open>
  Each case takes the locals and the device and gives them back with \<open>None\<close> when it
  reaches its \<^verbatim>\<open>break\<close>, or with the fault that ended it. The device is given back in
  both cases: what a command did before it threw stays done.
\<close>

definition executeResize :: "UINT \<Rightarrow> UINT \<Rightarrow> locals \<Rightarrow> RenderDevice \<Rightarrow> step" where
  "executeResize w h l d =
     (case resizeBackBuffer w h d of
        (Some e, d1) \<Rightarrow> (Some (Thrown e), l, d1)
      | (None, d1) \<Rightarrow> (None, l, d1))"

text \<open>\<^verbatim>\<open>if (currentRenderTarget) currentRenderTarget->resolve();\<close>\<close>

definition resolveCurrent :: "locals \<Rightarrow> RenderDevice \<Rightarrow> fault option \<times> RenderDevice" where
  "resolveCurrent l d =
     (case currentRenderTarget l of
        None \<Rightarrow> (None, d)
      | Some a \<Rightarrow>
          (case deref asRenderTarget d a of
             Inl f \<Rightarrow> (Some f, d)
           | Inr t \<Rightarrow> (None, call (RenderTarget_resolve a) d)))"

definition executePresent :: "locals \<Rightarrow> RenderDevice \<Rightarrow> step" where
  "executePresent l d =
     (case resolveCurrent l d of
        (Some f, d1) \<Rightarrow> (Some f, l, d1)
      | (None, d1) \<Rightarrow> (None, l, call (SwapChain_Present (swapInterval d1)) d1))"

text \<open>\<^verbatim>\<open>resources[deleteResourceCommand->resource - 1].reset();\<close>\<close>

definition executeDeleteResource :: "size_t \<Rightarrow> locals \<Rightarrow> RenderDevice \<Rightarrow> step" where
  "executeDeleteResource resource l d =
     (if unat (resource - 1) < length (resources d)
      then (None, l, (release (resources d ! unat (resource - 1)) d)
                       \<lparr>resources := (resources d)[unat (resource - 1) := None]\<rparr>)
      else (Some (Fatal ''resources: index out of range''), l, d))"

fun getTextures ::
  "RenderDevice \<Rightarrow> size_t list \<Rightarrow> fault + (addr \<times> TextureRes) option list" where
  "getTextures d [] = Inr []"
| "getTextures d (colorTextureId # ids) =
     (case getResource asTexture d colorTextureId of
        Inl f \<Rightarrow> Inl f
      | Inr t \<Rightarrow> (case getTextures d ids of Inl f \<Rightarrow> Inl f | Inr ts \<Rightarrow> Inr (t # ts)))"

definition executeInitRenderTarget ::
  "size_t \<Rightarrow> size_t list \<Rightarrow> size_t \<Rightarrow> locals \<Rightarrow> RenderDevice \<Rightarrow> step" where
  "executeInitRenderTarget renderTarget colorTextures depthTexture l d =
     (case getTextures d colorTextures of
        Inl f \<Rightarrow> (Some f, l, d)
      | Inr cs \<Rightarrow>
          (case getResource asTexture d depthTexture of
             Inl f \<Rightarrow> (Some f, l, d)
           | Inr dt \<Rightarrow>
               initResource ''RenderTarget'' (buildRenderTarget cs dt) renderTarget l d))"

definition executeSetRenderTarget :: "size_t \<Rightarrow> locals \<Rightarrow> RenderDevice \<Rightarrow> step" where
  "executeSetRenderTarget renderTarget l d =
     (case resolveCurrent l d of
        (Some f, d1) \<Rightarrow> (Some f, l, d1)
      | (None, d1) \<Rightarrow>
          (if renderTarget \<noteq> 0 then
             (case getResource asRenderTarget d1 renderTarget of
                Inl f \<Rightarrow> (Some f, l, d1)
              | Inr None \<Rightarrow> (Some (Fatal ''assert(currentRenderTarget)''),
                              l\<lparr>currentRenderTarget := None\<rparr>, d1)
              | Inr (Some (a, t)) \<Rightarrow>
                  (None, l\<lparr>currentRenderTarget := Some a\<rparr>,
                   call (OMSetRenderTargets (map Some (getRenderTargetViews t))
                           (getDepthStencilView t)) d1))
           else
             (None, l\<lparr>currentRenderTarget := None\<rparr>,
              call (OMSetRenderTargets [map_option viewAddr (renderTargetView d1)]
                      (map_option viewAddr (depthStencilView d1))) d1)))"

text \<open>
  \<^verbatim>\<open>clearRenderTarget\<close>. The flags argument of \<^verbatim>\<open>ClearDepthStencilView\<close>,
  \<^verbatim>\<open>(clearDepthBuffer ? D3D11_CLEAR_DEPTH : 0) | (clearStencilBuffer ? D3D11_CLEAR_STENCIL : 0)\<close>,
  is logged as its two bits; the colour is logged as the command carries it (the source
  normalises its four channels to floats).
\<close>

definition executeClearRenderTarget ::
  "bool \<Rightarrow> bool \<Rightarrow> bool \<Rightarrow> Color \<Rightarrow> float \<Rightarrow> UINT \<Rightarrow> locals \<Rightarrow> RenderDevice \<Rightarrow> step" where
  "executeClearRenderTarget clearColorBuffer clearDepthBuffer clearStencilBuffer
       clearColor clearDepth clearStencil l d =
     (case currentRenderTarget l of
        Some a \<Rightarrow>
          (if clearColorBuffer \<or> clearDepthBuffer \<or> clearStencilBuffer then
             (case deref asRenderTarget d a of
                Inl f \<Rightarrow> (Some f, l, d)
              | Inr t \<Rightarrow>
                  (let d1 = (if clearColorBuffer
                             then foldl (\<lambda>d' view. call (ClearRenderTargetView (Some view) clearColor) d')
                                    d (getRenderTargetViews t)
                             else d);
                       d2 = (if clearDepthBuffer \<or> clearStencilBuffer then
                               (case getDepthStencilView t of
                                  Some view \<Rightarrow>
                                    call (ClearDepthStencilView (Some view) clearDepthBuffer
                                            clearStencilBuffer clearDepth (ucast clearStencil)) d1
                                | None \<Rightarrow> d1)
                             else d1)
                   in (None, l, d2)))
           else (None, l, d))
      | None \<Rightarrow>
          (let d1 = (if clearColorBuffer
                     then call (ClearRenderTargetView (map_option viewAddr (renderTargetView d))
                                  clearColor) d
                     else d);
               d2 = (if clearDepthBuffer
                     then call (ClearDepthStencilView (map_option viewAddr (depthStencilView d1))
                                  clearDepthBuffer clearStencilBuffer clearDepth
                                  (ucast clearStencil)) d1
                     else d1)
           in (None, l, d2)))"

definition executeBlit ::
  "size_t \<Rightarrow> UINT \<Rightarrow> UINT \<Rightarrow> UINT \<Rightarrow> UINT \<Rightarrow> UINT \<Rightarrow> size_t \<Rightarrow> UINT \<Rightarrow> UINT \<Rightarrow> UINT
     \<Rightarrow> locals \<Rightarrow> RenderDevice \<Rightarrow> step" where
  "executeBlit sourceTexture sourceLevel sourceX sourceY sourceWidth sourceHeight
       destinationTexture destinationLevel destinationX destinationY l d =
     (case getResource asTexture d sourceTexture of
        Inl f \<Rightarrow> (Some f, l, d)
      | Inr src \<Rightarrow>
          (case getResource asTexture d destinationTexture of
             Inl f \<Rightarrow> (Some f, l, d)
           | Inr dst \<Rightarrow>
               (case (src, dst) of
                  (Some (a, s), Some (b, t)) \<Rightarrow>
                    (None, l,
                     call (CopySubresourceRegion (getTexture t) destinationLevel destinationX
                             destinationY (getTexture s) sourceLevel sourceX sourceY
                             (sourceX + sourceWidth) (sourceY + sourceHeight)) d)
                | _ \<Rightarrow> (Some (Fatal ''null texture dereferenced''), l, d))))"

text \<open>
  \<^verbatim>\<open>setScissorTest\<close>. The rectangle handed to \<^verbatim>\<open>RSSetScissorRects\<close> is logged as
  the command carries it (the source converts it to corner coordinates with float
  additions and casts).
\<close>

definition executeSetScissorTest :: "bool \<Rightarrow> RectF \<Rightarrow> locals \<Rightarrow> RenderDevice \<Rightarrow> step" where
  "executeSetScissorTest enabled rectangle l d =
     (let d1 = (if enabled then call (RSSetScissorRects rectangle) d else d);
          l1 = l\<lparr>scissorEnableIndex := (if enabled then 1 else 0)\<rparr>;
          rasterizerStateIndex = fillModeIndex l1 * 6 + scissorEnableIndex l1 * 3 + cullModeIndex l1
      in (None, l1, call (RSSetState (rasterizerStateAt d1 rasterizerStateIndex)) d1))"

definition executeSetViewport :: "RectF \<Rightarrow> locals \<Rightarrow> RenderDevice \<Rightarrow> step" where
  "executeSetViewport viewport l d = (None, l, call (RSSetViewports viewport) d)"

definition executeSetDepthStencilState :: "size_t \<Rightarrow> UINT \<Rightarrow> locals \<Rightarrow> RenderDevice \<Rightarrow> step" where
  "executeSetDepthStencilState depthStencilState stencilReferenceValue l d =
     (if depthStencilState \<noteq> 0 then
        (case getResource asDepthStencilState d depthStencilState of
           Inl f \<Rightarrow> (Some f, l, d)
         | Inr None \<Rightarrow> (Some (Fatal ''null depth stencil state dereferenced''), l, d)
         | Inr (Some (a, s)) \<Rightarrow>
             (None, l, call (OMSetDepthStencilState (Some s) stencilReferenceValue) d))
      else (None, l, call (OMSetDepthStencilState (defaultDepthStencilState d)
                             stencilReferenceValue) d))"

definition executeSetPipelineState ::
  "size_t \<Rightarrow> size_t \<Rightarrow> CullMode \<Rightarrow> FillMode \<Rightarrow> locals \<Rightarrow> RenderDevice \<Rightarrow> step" where
  "executeSetPipelineState blendState shader cullMode fillMode l d =
     (case getResource asBlendState d blendState of
        Inl f \<Rightarrow> (Some f, l, d)
      | Inr bs \<Rightarrow>
     (case getResource asShader d shader of
        Inl f \<Rightarrow> (Some f, l, d)
      | Inr sh \<Rightarrow>
     (let l1 = l\<lparr>currentShader := map_option fst sh\<rparr>;
          d1 = call (OMSetBlendState (map_option snd bs)) d
      in
      if (case sh of
            Some (a, s) \<Rightarrow>
              getFragmentShader s = None \<or> getVertexShader s = None \<or> getInputLayout s = None
          | None \<Rightarrow> False)
      then (Some (Fatal ''assert(shader->get...())''), l1, d1)
      else
     (let d2 = (case sh of
                  Some (a, s) \<Rightarrow>
                    call (IASetInputLayout (getInputLayout s))
                      (call (VSSetShader (getVertexShader s))
                         (call (PSSetShader (getFragmentShader s)) d1))
                | None \<Rightarrow>
                    call (IASetInputLayout None) (call (VSSetShader None) (call (PSSetShader None) d1)))
      in
      if cullMode = cull_invalid
      then (Some (Thrown (runtime_error ''Invalid cull mode'')), l1, d2)
      else
     (let l2 = l1\<lparr>cullModeIndex :=
                    (case cullMode of cull_none \<Rightarrow> 0 | cull_front \<Rightarrow> 1 | cull_back \<Rightarrow> 2
                     | cull_invalid \<Rightarrow> cullModeIndex l1)\<rparr>
      in
      if fillMode = fill_invalid
      then (Some (Thrown (runtime_error ''Invalid fill mode'')), l2, d2)
      else
     (let l3 = l2\<lparr>fillModeIndex :=
                    (case fillMode of fill_solid \<Rightarrow> 0 | fill_wireframe \<Rightarrow> 1
                     | fill_invalid \<Rightarrow> fillModeIndex l2)\<rparr>;
          rasterizerStateIndex = fillModeIndex l3 * 6 + scissorEnableIndex l3 * 3 + cullModeIndex l3
      in (None, l3, call (RSSetState (rasterizerStateAt d2 rasterizerStateIndex)) d2)))))))"

definition getIndexFormat :: "UINT \<Rightarrow> exn + DXGI_FORMAT" where
  "getIndexFormat indexSize =
     (if indexSize = 2 then Inr DXGI_FORMAT_R16_UINT
      else if indexSize = 4 then Inr DXGI_FORMAT_R32_UINT
      else Inl (runtime_error ''Invalid index size''))"

definition getPrimitiveTopology :: "DrawMode \<Rightarrow> exn + D3D_PRIMITIVE_TOPOLOGY" where
  "getPrimitiveTopology drawMode =
     (case drawMode of
        pointList \<Rightarrow> Inr D3D_PRIMITIVE_TOPOLOGY_POINTLIST
      | lineList \<Rightarrow> Inr D3D_PRIMITIVE_TOPOLOGY_LINELIST
      | lineStrip \<Rightarrow> Inr D3D_PRIMITIVE_TOPOLOGY_LINESTRIP
      | triangleList \<Rightarrow> Inr D3D_PRIMITIVE_TOPOLOGY_TRIANGLELIST
      | triangleStrip \<Rightarrow> Inr D3D_PRIMITIVE_TOPOLOGY_TRIANGLESTRIP
      | draw_invalid \<Rightarrow> Inl (runtime_error ''Invalid draw mode''))"

text \<open>\<^verbatim>\<open>draw\<close>, with the assertions of the source where the source has them.\<close>

definition executeDraw ::
  "size_t \<Rightarrow> UINT \<Rightarrow> UINT \<Rightarrow> size_t \<Rightarrow> DrawMode \<Rightarrow> UINT \<Rightarrow> locals \<Rightarrow> RenderDevice \<Rightarrow> step" where
  "executeDraw indexBuffer indexCount indexSize vertexBuffer drawMode startIndex l d =
     (case getResource asBuffer d indexBuffer of
        Inl f \<Rightarrow> (Some f, l, d)
      | Inr ib \<Rightarrow>
     (case getResource asBuffer d vertexBuffer of
        Inl f \<Rightarrow> (Some f, l, d)
      | Inr vb \<Rightarrow>
     (case (ib, vb) of
        (Some (a, i), Some (b, v)) \<Rightarrow>
          (if getBuffer i = None \<or> getBuffer v = None
           then (Some (Fatal ''assert(buffer->getBuffer())''), l, d)
           else
             (let d1 = call (IASetVertexBuffers (getBuffer v)) d in
              case getIndexFormat indexSize of
                Inl e \<Rightarrow> (Some (Thrown e), l, d1)
              | Inr format \<Rightarrow>
                  (let d2 = call (IASetIndexBuffer (getBuffer i) format) d1 in
                   case getPrimitiveTopology drawMode of
                     Inl e \<Rightarrow> (Some (Thrown e), l, d2)
                   | Inr topology \<Rightarrow>
                       (let d3 = call (IASetPrimitiveTopology topology) d2 in
                        if indexCount = 0 \<or> getSize i = 0 \<or> getSize v = 0
                        then (Some (Fatal ''assert(indexCount), assert(buffer->getSize())''), l, d3)
                        else (None, l, call (DrawIndexed indexCount startIndex) d3)))))
      | _ \<Rightarrow> (Some (Fatal ''assert(indexBuffer), assert(vertexBuffer)''), l, d))))"

definition executeSetBufferData :: "size_t \<Rightarrow> locals \<Rightarrow> RenderDevice \<Rightarrow> step" where
  "executeSetBufferData buffer l d =
     (case getResource asBuffer d buffer of
        Inl f \<Rightarrow> (Some f, l, d)
      | Inr None \<Rightarrow> (Some (Fatal ''null buffer dereferenced''), l, d)
      | Inr (Some (a, b)) \<Rightarrow>
          (case resourceMethod a ''setData'' d of
             (Some e, d1) \<Rightarrow> (Some (Thrown e), l, d1)
           | (None, d1) \<Rightarrow> (None, l, d1)))"

text \<open>
  \<^verbatim>\<open>setShaderConstants\<close>. The \<^verbatim>\<open>for\<close> loop over the constants of one stage checks
  \<^verbatim>\<open>sizeof(float) * constant.size() != location.size\<close> and appends the constant to
  \<^verbatim>\<open>shaderData\<close>; it walks the constants and the locations side by side from index 0.
  The count test before the loop keeps the index inside the locations.
\<close>

fun constantsLoop ::
  "float list list \<Rightarrow> UINT list \<Rightarrow> string \<Rightarrow> float list \<Rightarrow> fault option \<times> float list" where
  "constantsLoop [] locations msg data = (None, data)"
| "constantsLoop (c # cs) [] msg data = (Some (Fatal ''location index out of range''), data)"
| "constantsLoop (c # cs) (location # locations) msg data =
     (if 4 * length c \<noteq> unat location
      then (Some (Thrown (runtime_error msg)), data)
      else constantsLoop cs locations msg (data @ c))"

definition executeSetShaderConstants ::
  "float list list \<Rightarrow> float list list \<Rightarrow> locals \<Rightarrow> RenderDevice \<Rightarrow> step" where
  "executeSetShaderConstants fragmentShaderConstants vertexShaderConstants l d =
     (case currentShader l of
        None \<Rightarrow> (Some (Thrown (runtime_error ''No shader set'')), l, d)
      | Some p \<Rightarrow>
     (case deref asShader d p of
        Inl f \<Rightarrow> (Some f, l, d)
      | Inr s \<Rightarrow>
     (if length (getFragmentShaderConstantLocations s) < length fragmentShaderConstants
      then (Some (Thrown (runtime_error ''Invalid pixel shader constant size'')), l, d)
      else
     (case constantsLoop fragmentShaderConstants (getFragmentShaderConstantLocations s)
             ''Invalid pixel shader constant size'' [] of
        (Some f, data) \<Rightarrow> (Some f, l\<lparr>shaderData := data\<rparr>, d)
      | (None, data) \<Rightarrow>
     (case uploadBuffer (getFragmentShaderConstantBuffer s) data (of_nat (4 * length data)) d of
        (Some e, d1) \<Rightarrow> (Some (Thrown e), l\<lparr>shaderData := data\<rparr>, d1)
      | (None, d1) \<Rightarrow>
     (let d2 = call (PSSetConstantBuffers (getFragmentShaderConstantBuffer s)) d1;
          l1 = l\<lparr>shaderData := data\<rparr>
      in
      if length (getVertexShaderConstantLocations s) < length vertexShaderConstants
      then (Some (Thrown (runtime_error ''Invalid vertex shader constant size'')), l1, d2)
      else
     (case constantsLoop vertexShaderConstants (getVertexShaderConstantLocations s)
             ''Invalid vertex shader constant size'' [] of
        (Some f, vdata) \<Rightarrow> (Some f, l\<lparr>shaderData := vdata\<rparr>, d2)
      | (None, vdata) \<Rightarrow>
     (case uploadBuffer (getVertexShaderConstantBuffer s) vdata (of_nat (4 * length vdata)) d2 of
        (Some e, d3) \<Rightarrow> (Some (Thrown e), l\<lparr>shaderData := vdata\<rparr>, d3)
      | (None, d3) \<Rightarrow>
          (None, l\<lparr>shaderData := vdata\<rparr>,
           call (VSSetConstantBuffers (getVertexShaderConstantBuffer s)) d3)))))))))"

definition executeSetTextureData :: "size_t \<Rightarrow> locals \<Rightarrow> RenderDevice \<Rightarrow> step" where
  "executeSetTextureData texture l d =
     (case getResource asTexture d texture of
        Inl f \<Rightarrow> (Some f, l, d)
      | Inr None \<Rightarrow> (Some (Fatal ''null texture dereferenced''), l, d)
      | Inr (Some (a, t)) \<Rightarrow>
          (case resourceMethod a ''setData'' d of
             (Some e, d1) \<Rightarrow> (Some (Thrown e), l, d1)
           | (None, d1) \<Rightarrow> (None, l, d1)))"

fun resourceMethods :: "addr \<Rightarrow> string list \<Rightarrow> RenderDevice \<Rightarrow> exn option \<times> RenderDevice" where
  "resourceMethods a [] d = (None, d)"
| "resourceMethods a (name # names) d =
     (case resourceMethod a name d of
        (Some e, d1) \<Rightarrow> (Some e, d1)
      | (None, d1) \<Rightarrow> resourceMethods a names d1)"

definition executeSetTextureParameters :: "size_t \<Rightarrow> locals \<Rightarrow> RenderDevice \<Rightarrow> step" where
  "executeSetTextureParameters texture l d =
     (case getResource asTexture d texture of
        Inl f \<Rightarrow> (Some f, l, d)
      | Inr None \<Rightarrow> (Some (Fatal ''null texture dereferenced''), l, d)
      | Inr (Some (a, t)) \<Rightarrow>
          (case resourceMethods a
                  [''setFilter'', ''setAddressX'', ''setAddressY'', ''setAddressZ'',
                   ''setMaxAnisotropy''] d of
             (Some e, d1) \<Rightarrow> (Some (Thrown e), l, d1)
           | (None, d1) \<Rightarrow> (None, l, d1)))"

fun texturesLoop :: "RenderDevice \<Rightarrow> size_t list \<Rightarrow> locals \<Rightarrow> fault option \<times> locals" where
  "texturesLoop d [] l = (None, l)"
| "texturesLoop d (textureId # ids) l =
     (case getResource asTexture d textureId of
        Inl f \<Rightarrow> (Some f, l)
      | Inr (Some (a, t)) \<Rightarrow>
          texturesLoop d ids
            (l\<lparr>currentResourceViews := currentResourceViews l @ [getResourceView t],
               currentSamplerStates := currentSamplerStates l @ [getSamplerState t]\<rparr>)
      | Inr None \<Rightarrow>
          texturesLoop d ids
            (l\<lparr>currentResourceViews := currentResourceViews l @ [None],
               currentSamplerStates := currentSamplerStates l @ [None]\<rparr>))"

definition executeSetTextures :: "size_t list \<Rightarrow> locals \<Rightarrow> RenderDevice \<Rightarrow> step" where
  "executeSetTextures textures l d =
     (case texturesLoop d textures (l\<lparr>currentResourceViews := [], currentSamplerStates := []\<rparr>) of
        (Some f, l1) \<Rightarrow> (Some f, l1, d)
      | (None, l1) \<Rightarrow>
          (None, l1,
           call (PSSetSamplers (currentSamplerStates l1))
             (call (PSSetShaderResources (currentResourceViews l1)) d)))"

section \<open>The switch, the drain loop, \<^verbatim>\<open>process\<close>, \<^verbatim>\<open>renderMain\<close> and the destructor\<close>

primrec execute :: "Command \<Rightarrow> locals \<Rightarrow> RenderDevice \<Rightarrow> step" where
  "execute (ResizeCommand w h) = executeResize w h"
| "execute PresentCommand = executePresent"
| "execute (DeleteResourceCommand resource) = executeDeleteResource resource"
| "execute (InitRenderTargetCommand renderTarget colorTextures depthTexture) =
     executeInitRenderTarget renderTarget colorTextures depthTexture"
| "execute (SetRenderTargetCommand renderTarget) = executeSetRenderTarget renderTarget"
| "execute (ClearRenderTargetCommand clearColorBuffer clearDepthBuffer clearStencilBuffer
              clearColor clearDepth clearStencil) =
     executeClearRenderTarget clearColorBuffer clearDepthBuffer clearStencilBuffer
       clearColor clearDepth clearStencil"
| "execute (BlitCommand sourceTexture sourceLevel sourceX sourceY sourceWidth sourceHeight
              destinationTexture destinationLevel destinationX destinationY) =
     executeBlit sourceTexture sourceLevel sourceX sourceY sourceWidth sourceHeight
       destinationTexture destinationLevel destinationX destinationY"
| "execute (SetScissorTestCommand enabled rectangle) = executeSetScissorTest enabled rectangle"
| "execute (SetViewportCommand viewport) = executeSetViewport viewport"
| "execute (InitDepthStencilStateCommand depthStencilState) =
     initResource ''DepthStencilState'' buildDepthStencilState depthStencilState"
| "execute (SetDepthStencilStateCommand depthStencilState stencilReferenceValue) =
     executeSetDepthStencilState depthStencilState stencilReferenceValue"
| "execute (SetPipelineStateCommand blendState shader cullMode fillMode) =
     executeSetPipelineState blendState shader cullMode fillMode"
| "execute (DrawCommand indexBuffer indexCount indexSize vertexBuffer drawMode startIndex) =
     executeDraw indexBuffer indexCount indexSize vertexBuffer drawMode startIndex"
| "execute (PushDebugMarkerCommand name) = (\<lambda>l d. (None, l, d))"
| "execute PopDebugMarkerCommand = (\<lambda>l d. (None, l, d))"
| "execute (InitBlendStateCommand blendState) =
     initResource ''BlendState'' buildBlendState blendState"
| "execute (InitBufferCommand buffer initSize) =
     initResource ''Buffer'' (buildBuffer initSize) buffer"
| "execute (SetBufferDataCommand buffer) = executeSetBufferData buffer"
| "execute (InitShaderCommand shader fragmentShaderConstantInfo vertexShaderConstantInfo) =
     initResource ''Shader'' (buildShader fragmentShaderConstantInfo vertexShaderConstantInfo) shader"
| "execute (SetShaderConstantsCommand fragmentShaderConstants vertexShaderConstants) =
     executeSetShaderConstants fragmentShaderConstants vertexShaderConstants"
| "execute (InitTextureCommand texture bindRenderTarget depthFormat) =
     initResource ''Texture'' (buildTexture bindRenderTarget depthFormat) texture"
| "execute (SetTextureDataCommand texture) = executeSetTextureData texture"
| "execute (SetTextureParametersCommand texture) = executeSetTextureParameters texture"
| "execute (SetTexturesCommand textures) = executeSetTextures textures"
| "execute InvalidCommand = (\<lambda>l d. (Some (Thrown (runtime_error ''Invalid command'')), l, d))"

text \<open>
  The inner loop \<^verbatim>\<open>while (!commandBuffer.isEmpty())\<close>: pop a command, run its case,
  and \<^verbatim>\<open>if (command->type == Command::Type::present) return;\<close>. It ends with the
  buffer empty, with the \<^verbatim>\<open>return\<close> after a present, or with a fault.
\<close>

datatype drained = BufferEmpty | Presented | Faulted fault

fun drainBuffer :: "locals \<Rightarrow> RenderDevice \<Rightarrow> CommandBuffer \<Rightarrow> drained \<times> locals \<times> RenderDevice" where
  "drainBuffer l d [] = (BufferEmpty, l, d)"
| "drainBuffer l d (command # commandBuffer) =
     (case execute command l d of
        (Some f, l1, d1) \<Rightarrow> (Faulted f, l1, d1)
      | (None, l1, d1) \<Rightarrow>
          if command = PresentCommand then (Presented, l1, d1)
          else drainBuffer l1 d1 commandBuffer)"

text \<open>
  The outer loop \<^verbatim>\<open>for (;;)\<close>: wait until the queue is not empty, take its front
  buffer and drain it. With the queue empty the thread waits on the condition variable:
  the model stops with \<open>Waiting\<close> and the locals, to be resumed once the producer has
  pushed. The remaining queue is part of the result; the buffer being drained is a local
  of \<^verbatim>\<open>process\<close> and goes away with it.
\<close>

datatype outcome = Returned | Raised fault | Waiting locals

fun processLoop ::
  "locals \<Rightarrow> RenderDevice \<Rightarrow> CommandBuffer list \<Rightarrow> outcome \<times> RenderDevice \<times> CommandBuffer list" where
  "processLoop l d [] = (Waiting l, d, [])"
| "processLoop l d (commandBuffer # commandQueue) =
     (case drainBuffer l d commandBuffer of
        (Presented, l1, d1) \<Rightarrow> (Returned, d1, commandQueue)
      | (Faulted f, l1, d1) \<Rightarrow> (Raised f, d1, commandQueue)
      | (BufferEmpty, l1, d1) \<Rightarrow> processLoop l1 d1 commandQueue)"

text \<open>
  \<^verbatim>\<open>process\<close> declares its locals afresh and enters the loop. The calls it makes
  first, \<^verbatim>\<open>graphics::RenderDevice::process()\<close> and \<^verbatim>\<open>executeAll()\<close>, belong to the
  base class outside the sources; they are taken to leave the state modelled here alone.
\<close>

definition process ::
  "RenderDevice \<Rightarrow> CommandBuffer list \<Rightarrow> outcome \<times> RenderDevice \<times> CommandBuffer list" where
  "process d commandQueue = processLoop initialLocals d commandQueue"

text \<open>
  \<^verbatim>\<open>renderMain\<close>: \<^verbatim>\<open>while (running) { try { process(); } catch (const std::exception& e)
  { log } }\<close>. The thread ends in one of three ways: the loop test fails (\<open>Exited\<close>),
  it waits inside \<^verbatim>\<open>process\<close> on an empty queue (\<open>Blocked\<close>, with the locals of that
  call), or something undefined happened (\<open>Crashed\<close>). No command writes \<^verbatim>\<open>running\<close>;
  only the destructor does, from the producer's thread.
\<close>

datatype thread = Exited | Blocked locals | Crashed string

function renderMain ::
  "RenderDevice \<Rightarrow> CommandBuffer list \<Rightarrow> thread \<times> RenderDevice \<times> CommandBuffer list" where
  "renderMain d commandQueue =
     (if running d then
        (case process d commandQueue of
           (Returned, d1, q1) \<Rightarrow> renderMain d1 q1
         | (Raised (Thrown e), d1, q1) \<Rightarrow> renderMain (d1\<lparr>errorLog := errorLog d1 @ [e]\<rparr>) q1
         | (Raised (Fatal m), d1, q1) \<Rightarrow> (Crashed m, d1, q1)
         | (Waiting l, d1, q1) \<Rightarrow> (Blocked l, d1, q1))
      else (Exited, d, commandQueue))"
  by pat_completeness auto
termination
proof -
  have shrink: "processLoop l d q = (out, d1, q1) \<Longrightarrow>
      out = Returned \<or> (\<exists>f. out = Raised f) \<Longrightarrow> length q1 < length q"
    for l d q out d1 q1
  proof (induction q arbitrary: l d)
    case Nil
    then show ?case by auto
  next
    case (Cons b q)
    obtain r l1 d2 where dr: "drainBuffer l d b = (r, l1, d2)"
      by (cases "drainBuffer l d b") auto
    show ?case
      using Cons.prems Cons.IH [of l1 d2] dr
      by (cases r) (auto intro: less_SucI)
  qed
  show ?thesis
  proof (relation "measure (\<lambda>(d, q). length q)", goal_cases)
    case 1
    show ?case by simp
  next
    case (2 d commandQueue x y xa ya)
    then have "processLoop initialLocals d commandQueue = (Returned, xa, ya)"
      by (simp add: process_def)
    from shrink [OF this] show ?case by simp
  next
    case (3 d commandQueue x y x2 x1 xa ya)
    then have "processLoop initialLocals d commandQueue = (Raised (Thrown x1), xa, ya)"
      by (simp add: process_def)
    from shrink [OF this] show ?case by simp
  qed
qed

declare renderMain.simps [simp del]

text \<open>
  The rest of \<^verbatim>\<open>renderMain\<close> for a thread that is inside \<^verbatim>\<open>process\<close>, at the head
  of the \<^verbatim>\<open>for (;;)\<close> loop with locals \<open>l\<close>: the same four ways out of the call,
  then the loop of \<^verbatim>\<open>renderMain\<close>.
\<close>

definition renderMainFrom ::
  "locals \<Rightarrow> RenderDevice \<Rightarrow> CommandBuffer list \<Rightarrow> thread \<times> RenderDevice \<times> CommandBuffer list" where
  "renderMainFrom l d commandQueue =
     (case processLoop l d commandQueue of
        (Returned, d1, q1) \<Rightarrow> renderMain d1 q1
      | (Raised (Thrown e), d1, q1) \<Rightarrow> renderMain (d1\<lparr>errorLog := errorLog d1 @ [e]\<rparr>) q1
      | (Raised (Fatal m), d1, q1) \<Rightarrow> (Crashed m, d1, q1)
      | (Waiting l', d1, q1) \<Rightarrow> (Blocked l', d1, q1))"



section \<open>Members outside the reach of commands\<close>

text \<open>
  The members no command writes: the loop flag, the creation parameters and the
  rasterizer-state table. They are gathered in one tuple so that one family of lemmas
  shows them unchanged by every case of the switch.
\<close>

definition configuration :: "RenderDevice \<Rightarrow> bool \<times> bool \<times> bool \<times> UINT \<times> UINT \<times> addr option \<times> ID3D11RasterizerState option list \<times> UINT \<times> UINT" where
  "configuration d =
     (running d, depth d, stencil d, sampleCount d, swapInterval d, defaultDepthStencilState d,
      rasterizerStates d, clientWidth d, clientHeight d)"

text \<open>
  A device to run the model on: \<^verbatim>\<open>init\<close> for a 640 by 480 window with depth and
  stencil, one sample and vertical sync, as far as it is modelled (the rasterizer table
  and the depth/stencil attachment), on a backend that fails nothing; the call log
  starts empty once \<^verbatim>\<open>init\<close> is through.
\<close>

definition blankDevice :: RenderDevice where
  "blankDevice =
     \<lparr>running = False, depth = True, stencil = True, sampleCount = 1, swapInterval = 1,
      frameBufferWidth = 640, frameBufferHeight = 480,
      backBuffer = Some \<lparr>texAddr = 0, texDesc = \<lparr>Width = 640, Height = 480,
                     Format = DXGI_FORMAT_R8G8B8A8_UNORM, SampleCount = 1\<rparr>\<rparr>,
      renderTargetView = Some \<lparr>viewAddr = 1, viewOf = 0\<rparr>,
      depthStencilTexture = None, depthStencilView = None,
      defaultDepthStencilState = None,
      rasterizerStates = [], resources = [], objects = Map.empty,
      calls = [], hresults = [], nextObject = 2,
      swapChainBuffer = \<lparr>texAddr = 0, texDesc = \<lparr>Width = 640, Height = 480,
                     Format = DXGI_FORMAT_R8G8B8A8_UNORM, SampleCount = 1\<rparr>\<rparr>,
      clientWidth = 640, clientHeight = 480, errorLog = []\<rparr>"

definition exampleDevice :: RenderDevice where
  "exampleDevice =
     (case initRasterizerStates blankDevice of
        (e1, d1) \<Rightarrow>
          (case initDepthStencil d1 of
             (e2, d2) \<Rightarrow>
               d2\<lparr>defaultDepthStencilState := Some (nextObject d2),
                   nextObject := Suc (nextObject d2), calls := [], running := True\<rparr>))"


definition exampleRect :: RectF where
  "exampleRect = \<lparr>positionX = 0, positionY = 0, sizeX = 0x44200000, sizeY = 0x43F00000\<rparr>"

text \<open>
  The index expression both cases of the switch compute before \<^verbatim>\<open>RSSetState\<close>:
  \<^verbatim>\<open>fillModeIndex * 6 + scissorEnableIndex * 3 + cullModeIndex\<close>.
\<close>

definition rasterizerStateIndex :: "locals \<Rightarrow> nat" where
  "rasterizerStateIndex l = fillModeIndex l * 6 + scissorEnableIndex l * 3 + cullModeIndex l"

text \<open>
  The index as the specification words it, for comparison with the code:
  \<open>fillModeIndex * N_scissor + scissorEnableIndex * N_cull + cullModeIndex\<close>, with
  \<open>N_scissor\<close> the number of scissor modes and \<open>N_cull\<close> the number of cull modes.
\<close>

definition specRasterizerStateIndex :: "nat \<Rightarrow> nat \<Rightarrow> nat \<Rightarrow> nat" where
  "specRasterizerStateIndex fillIndex scissorIndex cullIndex =
     fillIndex * scissorModeCount + scissorIndex * cullModeCount + cullIndex"

text \<open>More example values: an opaque black, and a render target with one colour view and a depth view.\<close>

definition exampleColor :: Color where
  "exampleColor = \<lparr>colorR = 0, colorG = 0, colorB = 0, colorA = 255\<rparr>"

definition exampleTarget :: RenderResource where
  "exampleTarget = RenderTarget \<lparr>getRenderTargetViews = [21], getDepthStencilView = Some 22\<rparr>"

text \<open>
  The members \<^verbatim>\<open>resizeBackBuffer\<close> has no business with beyond those of
  \<open>configuration\<close>: the resource table, its objects and the error log.
\<close>

definition bookkeeping :: "RenderDevice \<Rightarrow> addr option list \<times> (addr \<rightharpoonup> RenderResource) \<times> exn list" where
  "bookkeeping d = (resources d, objects d, errorLog d)"

text \<open>Predicates the statements below are written with.\<close>

text \<open>The backend fails none of the calls to come.\<close>

definition backendSucceeds :: "RenderDevice \<Rightarrow> bool" where
  "backendSucceeds d = list_all (\<lambda>hr. \<not> FAILED hr) (hresults d)"

text \<open>
  The objects the framebuffer members point at were handed out by the address counter:
  their addresses lie below it.
\<close>

definition allocatedBelow :: "RenderDevice \<Rightarrow> bool" where
  "allocatedBelow d =
     ((case backBuffer d of None \<Rightarrow> True | Some t \<Rightarrow> texAddr t < nextObject d)
      \<and> (case renderTargetView d of None \<Rightarrow> True | Some v \<Rightarrow> viewAddr v < nextObject d)
      \<and> (case depthStencilTexture d of None \<Rightarrow> True | Some t \<Rightarrow> texAddr t < nextObject d)
      \<and> (case depthStencilView d of None \<Rightarrow> True | Some v \<Rightarrow> viewAddr v < nextObject d))"


text \<open>
  The constants of one stage fit the shader's locations: there are no more constants
  than locations, and each constant has the byte size of the location at its index.
\<close>

definition sizesMatch :: "float list list \<Rightarrow> UINT list \<Rightarrow> bool" where
  "sizesMatch constants locations =
     (length constants \<le> length locations
      \<and> list_all2 (\<lambda>c location. 4 * length c = unat location)
            constants (take (length constants) locations))"

text \<open>
  The object a handle reaches through the table: slot \<open>handle - 1\<close> holds a pointer and
  the pointer's object is alive. Handle 0 and a handle past the end reach nothing. A slot
  is populated for a handle when the handle reaches an object, which is when
  \<^verbatim>\<open>getResource\<close> finds one.
\<close>

definition slotObject :: "RenderDevice \<Rightarrow> size_t \<Rightarrow> RenderResource option" where
  "slotObject d h =
     (if h \<noteq> 0 \<and> unat (h - 1) < length (resources d)
      then (case resources d ! unat (h - 1) of None \<Rightarrow> None | Some a \<Rightarrow> objects d a)
      else None)"

definition populated :: "RenderDevice \<Rightarrow> size_t \<Rightarrow> bool" where
  "populated d h = (slotObject d h \<noteq> None)"




text \<open>A shader for the examples, with one four-byte constant per stage.\<close>

definition exampleShader :: RenderResource where
  "exampleShader =
     Shader \<lparr>getFragmentShader = Some 30, getVertexShader = Some 31, getInputLayout = Some 32,
             getFragmentShaderConstantBuffer = 33, getVertexShaderConstantBuffer = 34,
             getFragmentShaderConstantLocations = [4], getVertexShaderConstantLocations = [4]\<rparr>"




section \<open>What no command changes\<close>

lemma configuration_call [simp]: "configuration (call c d) = configuration d"
  by (simp add: configuration_def call_def)

lemma configuration_fallible: "fallible c d = (hr, d1) \<Longrightarrow> configuration d1 = configuration d"
  by (auto simp add: configuration_def fallible_def call_def split: list.splits)

lemma configuration_newObject: "newObject d = (a, d1) \<Longrightarrow> configuration d1 = configuration d"
  by (auto simp add: configuration_def newObject_def)

lemma configuration_release [simp]: "configuration (release p d) = configuration d"
  by (simp add: configuration_def release_def split: option.splits)

lemma configuration_updates [simp]:
  "configuration (d\<lparr>backBuffer := bb\<rparr>) = configuration d"
  "configuration (d\<lparr>renderTargetView := v\<rparr>) = configuration d"
  "configuration (d\<lparr>depthStencilTexture := t\<rparr>) = configuration d"
  "configuration (d\<lparr>depthStencilView := dv\<rparr>) = configuration d"
  "configuration (d\<lparr>frameBufferWidth := w\<rparr>) = configuration d"
  "configuration (d\<lparr>frameBufferHeight := h\<rparr>) = configuration d"
  "configuration (d\<lparr>swapChainBuffer := sb\<rparr>) = configuration d"
  "configuration (d\<lparr>resources := rs\<rparr>) = configuration d"
  "configuration (d\<lparr>objects := os\<rparr>) = configuration d"
  "configuration (d\<lparr>errorLog := es\<rparr>) = configuration d"
  by (simp_all add: configuration_def)

lemma configuration_ResizeBuffers:
  "ResizeBuffers w h d = (hr, d1) \<Longrightarrow> configuration d1 = configuration d"
  unfolding ResizeBuffers_def
  by (auto simp: Let_def split: prod.splits if_splits
      dest!: configuration_fallible configuration_newObject)

lemma configuration_GetBuffer:
  "GetBuffer d = (hr, b, d1) \<Longrightarrow> configuration d1 = configuration d"
  unfolding GetBuffer_def
  by (auto simp: Let_def split: prod.splits if_splits
      dest!: configuration_fallible configuration_newObject)

lemma configuration_CreateRenderTargetView:
  "CreateRenderTargetView t d = (hr, b, d1) \<Longrightarrow> configuration d1 = configuration d"
  unfolding CreateRenderTargetView_def
  by (auto simp: Let_def split: prod.splits if_splits
      dest!: configuration_fallible configuration_newObject)

lemma configuration_CreateTexture2D:
  "CreateTexture2D t d = (hr, b, d1) \<Longrightarrow> configuration d1 = configuration d"
  unfolding CreateTexture2D_def
  by (auto simp: Let_def split: prod.splits if_splits
      dest!: configuration_fallible configuration_newObject)

lemma configuration_CreateDepthStencilView:
  "CreateDepthStencilView t d = (hr, b, d1) \<Longrightarrow> configuration d1 = configuration d"
  unfolding CreateDepthStencilView_def
  by (auto simp: Let_def split: prod.splits if_splits
      dest!: configuration_fallible configuration_newObject)

lemma configuration_resizeBackBuffer:
  "resizeBackBuffer w h d = (e, d') \<Longrightarrow> configuration d' = configuration d"
  unfolding resizeBackBuffer_def
  by (auto simp: Let_def split: prod.splits if_splits
      dest!: configuration_ResizeBuffers configuration_GetBuffer configuration_CreateRenderTargetView
        configuration_CreateTexture2D configuration_CreateDepthStencilView)


lemma configuration_uploadBuffer:
  "uploadBuffer b data n d = (e, d') \<Longrightarrow> configuration d' = configuration d"
  unfolding uploadBuffer_def
  by (auto simp: Let_def split: prod.splits if_splits dest!: configuration_fallible)

lemma configuration_construct:
  "construct name d = (e, d') \<Longrightarrow> configuration d' = configuration d"
  unfolding construct_def
  by (auto simp: Let_def split: prod.splits if_splits dest!: configuration_fallible)

lemma configuration_resourceMethod:
  "resourceMethod a name d = (e, d') \<Longrightarrow> configuration d' = configuration d"
  unfolding resourceMethod_def
  by (auto simp: Let_def split: prod.splits if_splits dest!: configuration_fallible)

lemma configuration_resourceMethods:
  "resourceMethods a names d = (e, d') \<Longrightarrow> configuration d' = configuration d"
  by (induction names arbitrary: d)
     (auto split: prod.splits option.splits dest!: configuration_resourceMethod)

lemma configuration_makeUnique:
  "makeUnique r d = (a, d') \<Longrightarrow> configuration d' = configuration d"
  unfolding makeUnique_def
  by (auto simp: Let_def split: prod.splits dest!: configuration_newObject)

lemma configuration_assignResource:
  "assignResource h a d = (f, d') \<Longrightarrow> configuration d' = configuration d"
  unfolding assignResource_def
  by (auto simp: Let_def split: prod.splits if_splits)

lemma configuration_initResource:
  assumes "\<And>d r d'. build d = (r, d') \<Longrightarrow> configuration d' = configuration d"
    and "initResource name build h l d = (f, l', d')"
  shows "configuration d' = configuration d"
  using assms(2) unfolding initResource_def
  by (auto simp: Let_def split: prod.splits option.splits
      dest!: configuration_construct configuration_makeUnique configuration_assignResource assms(1))

lemma configuration_buildBlendState:
  "buildBlendState d = (r, d') \<Longrightarrow> configuration d' = configuration d"
  unfolding buildBlendState_def
  by (auto simp: Let_def split: prod.splits dest!: configuration_newObject)

lemma configuration_buildDepthStencilState:
  "buildDepthStencilState d = (r, d') \<Longrightarrow> configuration d' = configuration d"
  unfolding buildDepthStencilState_def
  by (auto simp: Let_def split: prod.splits dest!: configuration_newObject)

lemma configuration_buildBuffer:
  "buildBuffer n d = (r, d') \<Longrightarrow> configuration d' = configuration d"
  unfolding buildBuffer_def
  by (auto simp: Let_def split: prod.splits if_splits dest!: configuration_newObject)

lemma configuration_buildShader:
  "buildShader fs vs d = (r, d') \<Longrightarrow> configuration d' = configuration d"
  unfolding buildShader_def
  by (auto simp: Let_def split: prod.splits dest!: configuration_newObject)

lemma configuration_buildTexture:
  "buildTexture b1 b2 d = (r, d') \<Longrightarrow> configuration d' = configuration d"
  unfolding buildTexture_def
  by (auto simp: Let_def split: prod.splits dest!: configuration_newObject)

lemma configuration_buildRenderTarget:
  "buildRenderTarget cs dt d = (r, d') \<Longrightarrow> configuration d' = configuration d"
  unfolding buildRenderTarget_def by auto

lemma configuration_resolveCurrent:
  "resolveCurrent l d = (f, d') \<Longrightarrow> configuration d' = configuration d"
  unfolding resolveCurrent_def
  by (auto split: option.splits sum.splits)

lemma configuration_foldl_call [simp]:
  "configuration (foldl (\<lambda>d' x. call (g x) d') d xs) = configuration d"
  by (induction xs arbitrary: d) auto

lemma configuration_execute:
  assumes ex: "execute c l d = (f, l', d')"
  shows "configuration d' = configuration d"
proof (cases c)
  case (ResizeCommand w h)
  with ex show ?thesis
    by (auto simp: executeResize_def split: prod.splits option.splits
        dest!: configuration_resizeBackBuffer)
next
  case PresentCommand
  with ex show ?thesis
    by (auto simp: executePresent_def split: prod.splits option.splits
        dest!: configuration_resolveCurrent)
next
  case (DeleteResourceCommand h)
  with ex show ?thesis
    by (auto simp: executeDeleteResource_def split: if_splits)
next
  case (InitRenderTargetCommand h cs dt)
  with ex show ?thesis
    by (auto simp: executeInitRenderTarget_def split: sum.splits
        dest!: configuration_initResource [rotated] configuration_buildRenderTarget)
next
  case (SetRenderTargetCommand h)
  with ex show ?thesis
    by (auto simp: executeSetRenderTarget_def split: prod.splits option.splits sum.splits if_splits
        dest!: configuration_resolveCurrent)
next
  case (ClearRenderTargetCommand b1 b2 b3 col z s)
  with ex show ?thesis
    by (auto simp: executeClearRenderTarget_def Let_def
        split: prod.splits option.splits sum.splits if_splits)
next
  case (BlitCommand x1 x2 x3 x4 x5 x6 x7 x8 x9 x10)
  with ex show ?thesis
    by (auto simp: executeBlit_def split: prod.splits option.splits sum.splits)
next
  case (SetScissorTestCommand en r)
  with ex show ?thesis
    by (auto simp: executeSetScissorTest_def Let_def)
next
  case (SetViewportCommand r)
  with ex show ?thesis by (auto simp: executeSetViewport_def)
next
  case (InitDepthStencilStateCommand h)
  with ex show ?thesis
    by (auto dest!: configuration_initResource [rotated] configuration_buildDepthStencilState)
next
  case (SetDepthStencilStateCommand h r)
  with ex show ?thesis
    by (auto simp: executeSetDepthStencilState_def
        split: prod.splits option.splits sum.splits if_splits)
next
  case (SetPipelineStateCommand b s cm fm)
  with ex show ?thesis
    by (auto simp: executeSetPipelineState_def Let_def
        split: prod.splits option.splits sum.splits if_splits)
next
  case (DrawCommand x1 x2 x3 x4 x5 x6)
  with ex show ?thesis
    by (auto simp: executeDraw_def Let_def
        split: prod.splits option.splits sum.splits if_splits)
next
  case (PushDebugMarkerCommand n)
  with ex show ?thesis by auto
next
  case PopDebugMarkerCommand
  with ex show ?thesis by auto
next
  case (InitBlendStateCommand h)
  with ex show ?thesis
    by (auto dest!: configuration_initResource [rotated] configuration_buildBlendState)
next
  case (InitBufferCommand h n)
  with ex show ?thesis
    by (auto dest!: configuration_initResource [rotated] configuration_buildBuffer)
next
  case (SetBufferDataCommand h)
  with ex show ?thesis
    by (auto simp: executeSetBufferData_def split: prod.splits option.splits sum.splits
        dest!: configuration_resourceMethod)
next
  case (InitShaderCommand h fs vs)
  with ex show ?thesis
    by (auto dest!: configuration_initResource [rotated] configuration_buildShader)
next
  case (SetShaderConstantsCommand fs vs)
  with ex show ?thesis
    by (auto simp: executeSetShaderConstants_def Let_def
        split: prod.splits option.splits sum.splits if_splits
        dest!: configuration_uploadBuffer)
next
  case (InitTextureCommand h b1 b2)
  with ex show ?thesis
    by (auto dest!: configuration_initResource [rotated] configuration_buildTexture)
next
  case (SetTextureDataCommand h)
  with ex show ?thesis
    by (auto simp: executeSetTextureData_def split: prod.splits option.splits sum.splits
        dest!: configuration_resourceMethod)
next
  case (SetTextureParametersCommand h)
  with ex show ?thesis
    by (auto simp: executeSetTextureParameters_def simp del: resourceMethods.simps
        split: prod.splits option.splits sum.splits dest!: configuration_resourceMethods)
next
  case (SetTexturesCommand hs)
  with ex show ?thesis
    by (auto simp: executeSetTextures_def split: prod.splits option.splits)
next
  case InvalidCommand
  with ex show ?thesis by auto
qed


lemma configuration_drainBuffer:
  "drainBuffer l d b = (r, l', d') \<Longrightarrow> configuration d' = configuration d"
proof (induction b arbitrary: l d)
  case Nil
  then show ?case by simp
next
  case (Cons c b)
  obtain f l1 d1 where ex: "execute c l d = (f, l1, d1)"
    by (cases "execute c l d") auto
  from configuration_execute [OF ex] Cons.IH [of l1 d1] Cons.prems ex
  show ?case by (auto split: option.splits if_splits)
qed

lemma configuration_processLoop:
  "processLoop l d q = (out, d', q') \<Longrightarrow> configuration d' = configuration d"
proof (induction q arbitrary: l d)
  case Nil
  then show ?case by simp
next
  case (Cons b q)
  obtain r l1 d1 where dr: "drainBuffer l d b = (r, l1, d1)"
    by (cases "drainBuffer l d b") auto
  from configuration_drainBuffer [OF dr] Cons.IH [of l1 d1] Cons.prems dr
  show ?case by (cases r) auto
qed

lemma running_configuration: "configuration d' = configuration d \<Longrightarrow> running d' = running d"
  by (simp add: configuration_def)


section \<open>The example device\<close>

lemma exampleDevice_eq:
  "exampleDevice =
     \<lparr>running = True, depth = True, stencil = True, sampleCount = 1, swapInterval = 1,
      frameBufferWidth = 640, frameBufferHeight = 480,
      backBuffer = Some \<lparr>texAddr = 0, texDesc = \<lparr>Width = 640, Height = 480,
                     Format = DXGI_FORMAT_R8G8B8A8_UNORM, SampleCount = 1\<rparr>\<rparr>,
      renderTargetView = Some \<lparr>viewAddr = 1, viewOf = 0\<rparr>,
      depthStencilTexture = Some \<lparr>texAddr = 14, texDesc = \<lparr>Width = 640, Height = 480,
                     Format = DXGI_FORMAT_D24_UNORM_S8_UINT, SampleCount = 1\<rparr>\<rparr>,
      depthStencilView = Some \<lparr>viewAddr = 15, viewOf = 14\<rparr>,
      defaultDepthStencilState = Some 16,
      rasterizerStates =
        [Some \<lparr>rsAddr = 2, rsDesc = \<lparr>descFillMode = D3D11_FILL_SOLID, descCullMode = D3D11_CULL_NONE,
           descScissorEnable = False, descMultisampleEnable = False\<rparr>\<rparr>,
         Some \<lparr>rsAddr = 3, rsDesc = \<lparr>descFillMode = D3D11_FILL_SOLID, descCullMode = D3D11_CULL_FRONT,
           descScissorEnable = False, descMultisampleEnable = False\<rparr>\<rparr>,
         Some \<lparr>rsAddr = 4, rsDesc = \<lparr>descFillMode = D3D11_FILL_SOLID, descCullMode = D3D11_CULL_BACK,
           descScissorEnable = False, descMultisampleEnable = False\<rparr>\<rparr>,
         Some \<lparr>rsAddr = 5, rsDesc = \<lparr>descFillMode = D3D11_FILL_SOLID, descCullMode = D3D11_CULL_NONE,
           descScissorEnable = True, descMultisampleEnable = False\<rparr>\<rparr>,
         Some \<lparr>rsAddr = 6, rsDesc = \<lparr>descFillMode = D3D11_FILL_SOLID, descCullMode = D3D11_CULL_FRONT,
           descScissorEnable = True, descMultisampleEnable = False\<rparr>\<rparr>,
         Some \<lparr>rsAddr = 7, rsDesc = \<lparr>descFillMode = D3D11_FILL_SOLID, descCullMode = D3D11_CULL_BACK,
           descScissorEnable = True, descMultisampleEnable = False\<rparr>\<rparr>,
         Some \<lparr>rsAddr = 8, rsDesc = \<lparr>descFillMode = D3D11_FILL_WIREFRAME, descCullMode = D3D11_CULL_NONE,
           descScissorEnable = False, descMultisampleEnable = False\<rparr>\<rparr>,
         Some \<lparr>rsAddr = 9, rsDesc = \<lparr>descFillMode = D3D11_FILL_WIREFRAME, descCullMode = D3D11_CULL_FRONT,
           descScissorEnable = False, descMultisampleEnable = False\<rparr>\<rparr>,
         Some \<lparr>rsAddr = 10, rsDesc = \<lparr>descFillMode = D3D11_FILL_WIREFRAME, descCullMode = D3D11_CULL_BACK,
           descScissorEnable = False, descMultisampleEnable = False\<rparr>\<rparr>,
         Some \<lparr>rsAddr = 11, rsDesc = \<lparr>descFillMode = D3D11_FILL_WIREFRAME, descCullMode = D3D11_CULL_NONE,
           descScissorEnable = True, descMultisampleEnable = False\<rparr>\<rparr>,
         Some \<lparr>rsAddr = 12, rsDesc = \<lparr>descFillMode = D3D11_FILL_WIREFRAME, descCullMode = D3D11_CULL_FRONT,
           descScissorEnable = True, descMultisampleEnable = False\<rparr>\<rparr>,
         Some \<lparr>rsAddr = 13, rsDesc = \<lparr>descFillMode = D3D11_FILL_WIREFRAME, descCullMode = D3D11_CULL_BACK,
           descScissorEnable = True, descMultisampleEnable = False\<rparr>\<rparr>],
      resources = [], objects = Map.empty,
      calls = [], hresults = [], nextObject = 17,
      swapChainBuffer = \<lparr>texAddr = 0, texDesc = \<lparr>Width = 640, Height = 480,
                     Format = DXGI_FORMAT_R8G8B8A8_UNORM, SampleCount = 1\<rparr>\<rparr>,
      clientWidth = 640, clientHeight = 480, errorLog = []\<rparr>"
  by (simp add: exampleDevice_def blankDevice_def initRasterizerStates_def initDepthStencil_def
      fillModeCount_def scissorModeCount_def cullModeCount_def CreateRasterizerState_def
      CreateTexture2D_def CreateDepthStencilView_def fallible_def call_def
      newObject_def rasterStateDesc_def Let_def FAILED_def eval_nat_numeral)


lemma exampleDevice_fields [simp]:
  "running exampleDevice" "depth exampleDevice" "stencil exampleDevice"
  "calls exampleDevice = []" "hresults exampleDevice = []" "swapInterval exampleDevice = 1"
  "resources exampleDevice = []" "nextObject exampleDevice = 17"
  "frameBufferWidth exampleDevice = 640" "frameBufferHeight exampleDevice = 480"
  "errorLog exampleDevice = []" "sampleCount exampleDevice = 1"
  by (simp_all add: exampleDevice_eq)

section \<open>The drain loop, the render thread and shutdown\<close>

lemma drainBuffer_append:
  "drainBuffer l d pre = (BufferEmpty, l0, d0) \<Longrightarrow>
     drainBuffer l d (pre @ cs) = drainBuffer l0 d0 cs"
proof (induction pre arbitrary: l d)
  case Nil
  then show ?case by simp
next
  case (Cons c pre)
  obtain f l1 d1 where ex: "execute c l d = (f, l1, d1)"
    by (cases "execute c l d") auto
  with Cons.prems Cons.IH [of l1 d1] show ?case
    by (auto split: option.splits if_splits)
qed

lemma drainBuffer_present_cut:
  "drainBuffer l d (pre @ PresentCommand # post) = drainBuffer l d (pre @ [PresentCommand])"
proof (induction pre arbitrary: l d)
  case Nil
  show ?case by (simp split: prod.splits option.splits)
next
  case (Cons c pre)
  show ?case
    by (cases "execute c l d") (auto simp: Cons.IH split: option.splits)
qed

lemma drainBuffer_present_not_empty:
  "fst (drainBuffer l d (pre @ PresentCommand # post)) \<noteq> BufferEmpty"
proof (induction pre arbitrary: l d)
  case Nil
  show ?case by (simp split: prod.splits option.splits)
next
  case (Cons c pre)
  show ?case
    by (cases "execute c l d") (auto simp: Cons.IH split: option.splits)
qed

lemma renderMain_running:
  "running d \<Longrightarrow> renderMain d q = renderMainFrom initialLocals d q"
  by (simp add: renderMainFrom_def process_def renderMain.simps [of d q])


lemma running_drainBuffer: "drainBuffer l d b = (r, l', d') \<Longrightarrow> running d' = running d"
  by (rule running_configuration [OF configuration_drainBuffer])

lemma running_processLoop: "processLoop l d q = (out, d', q') \<Longrightarrow> running d' = running d"
  by (rule running_configuration [OF configuration_processLoop])

text \<open>
  Claim C1. A present ends the drain loop at once and \<^verbatim>\<open>process\<close> returns: whatever
  follows the present in the buffer changes nothing (first conjunct), the loop never
  runs through to the end of a buffer that holds a present (second conjunct), and when
  the commands before the present complete and the present executes, the drain loop
  stops with \<open>Presented\<close> in the state the present left, \<^verbatim>\<open>process\<close> returns with the
  rest of the queue untouched, and a running render thread is back at the head of
  \<^verbatim>\<open>process\<close> with fresh locals, where it takes the next buffer or waits for one. A
  buffer holding a single present is drained by one call of \<^verbatim>\<open>process\<close>, which
  returns after the one call of \<^verbatim>\<open>Present\<close>.
\<close>

theorem present_ends_the_drain:
  "drainBuffer l d (pre @ PresentCommand # post) = drainBuffer l d (pre @ [PresentCommand])
   \<and> fst (drainBuffer l d (pre @ PresentCommand # post)) \<noteq> BufferEmpty
   \<and> (drainBuffer l d pre = (BufferEmpty, l0, d0) \<and> execute PresentCommand l0 d0 = (None, l1, d1)
        \<longrightarrow> drainBuffer l d (pre @ PresentCommand # post) = (Presented, l1, d1)
          \<and> processLoop l d ((pre @ PresentCommand # post) # q) = (Returned, d1, q)
          \<and> (running d \<longrightarrow>
                renderMainFrom l d ((pre @ PresentCommand # post) # q)
                  = renderMainFrom initialLocals d1 q))
   \<and> process d ([PresentCommand] # q) = (Returned, call (SwapChain_Present (swapInterval d)) d, q)"
proof -
  have single: "process d ([PresentCommand] # q)
      = (Returned, call (SwapChain_Present (swapInterval d)) d, q)"
    by (simp add: process_def executePresent_def resolveCurrent_def initialLocals_def)
  have reach: "drainBuffer l d (pre @ PresentCommand # post) = (Presented, l1, d1)"
    if "drainBuffer l d pre = (BufferEmpty, l0, d0)" and "execute PresentCommand l0 d0 = (None, l1, d1)"
    using that by (simp add: drainBuffer_append del: execute.simps)
  have resume: "renderMainFrom l d ((pre @ PresentCommand # post) # q) = renderMainFrom initialLocals d1 q"
    if "drainBuffer l d (pre @ PresentCommand # post) = (Presented, l1, d1)" and "running d"
  proof -
    from running_drainBuffer [OF that(1)] that(2) have "running d1" by simp
    then show ?thesis using that(1) by (simp add: renderMainFrom_def [of l] renderMain_running)
  qed
  show ?thesis
    using single reach resume drainBuffer_present_cut [of l d pre post]
      drainBuffer_present_not_empty [of l d pre post]
    by (auto simp del: execute.simps drainBuffer.simps)
qed


theorem present_ends_the_drain_witness:
  "drainBuffer initialLocals exampleDevice
     [SetViewportCommand exampleRect, PresentCommand, SetViewportCommand exampleRect]
     = (Presented, initialLocals,
        exampleDevice\<lparr>calls := [RSSetViewports exampleRect, SwapChain_Present 1]\<rparr>)
   \<and> processLoop initialLocals exampleDevice
       [[SetViewportCommand exampleRect, PresentCommand, SetViewportCommand exampleRect]]
     = (Returned, exampleDevice\<lparr>calls := [RSSetViewports exampleRect, SwapChain_Present 1]\<rparr>, [])
   \<and> renderMainFrom initialLocals exampleDevice
       [[SetViewportCommand exampleRect, PresentCommand, SetViewportCommand exampleRect]]
     = (Blocked initialLocals,
        exampleDevice\<lparr>calls := [RSSetViewports exampleRect, SwapChain_Present 1]\<rparr>, [])"
proof -
  let ?v = "SetViewportCommand exampleRect"
  let ?d0 = "exampleDevice\<lparr>calls := [RSSetViewports exampleRect]\<rparr>"
  let ?d1 = "exampleDevice\<lparr>calls := [RSSetViewports exampleRect, SwapChain_Present 1]\<rparr>"
  have a: "drainBuffer initialLocals exampleDevice [?v] = (BufferEmpty, initialLocals, ?d0)"
    by (simp add: executeSetViewport_def call_def)
  have b: "execute PresentCommand initialLocals ?d0 = (None, initialLocals, ?d1)"
    by (simp add: executePresent_def resolveCurrent_def initialLocals_def call_def)
  have e: "renderMainFrom initialLocals ?d1 [] = (Blocked initialLocals, ?d1, [])"
    by (simp add: renderMainFrom_def)
  have f: "drainBuffer initialLocals exampleDevice [?v, PresentCommand]
      = (Presented, initialLocals, ?d1)"
    by (simp add: executeSetViewport_def executePresent_def resolveCurrent_def initialLocals_def
        call_def)
  from f present_ends_the_drain [of initialLocals exampleDevice "[?v]" "[?v]" initialLocals ?d0
      initialLocals ?d1 "[]"] a b e
  show ?thesis
    by (simp del: drainBuffer.simps processLoop.simps execute.simps)
qed


lemma renderMain_never_exits:
  "running d \<Longrightarrow> fst (renderMain d q) \<noteq> Exited"
proof (induction d q rule: renderMain.induct)
  case (1 d q)
  obtain out d1 q1 where p: "process d q = (out, d1, q1)"
    by (cases "process d q") auto
  then have r1: "running d1"
    using running_processLoop [of initialLocals d q out d1 q1] "1.prems"
    by (simp add: process_def)
  show ?case
    using p r1 "1.prems" "1.IH"
    by (subst renderMain.simps) (auto split: outcome.splits fault.splits)
qed

text \<open>
  Claim C8. An exception thrown by a command leaves \<^verbatim>\<open>process\<close>, is caught and
  logged by \<^verbatim>\<open>renderMain\<close>, and the thread of a running device goes on with a new
  call of \<^verbatim>\<open>process\<close> on the buffers still queued; it does not exit. What is lost
  are the commands after the throwing one in its buffer; the queue behind is intact.
\<close>

theorem exception_caught_and_loop_continues:
  "(running d \<and> processLoop l d q0 = (Raised (Thrown e), d1, q1)
      \<longrightarrow> renderMainFrom l d q0
            = renderMainFrom initialLocals (d1\<lparr>errorLog := errorLog d1 @ [e]\<rparr>) q1
          \<and> running (d1\<lparr>errorLog := errorLog d1 @ [e]\<rparr>)
          \<and> fst (renderMainFrom l d q0) \<noteq> Exited)
   \<and> (drainBuffer l d pre = (BufferEmpty, l0, d0) \<and> execute c l0 d0 = (Some (Thrown e), l1, d1)
      \<longrightarrow> processLoop l d ((pre @ c # post) # q) = (Raised (Thrown e), d1, q))
   \<and> (running d \<longrightarrow> fst (renderMain d q) \<noteq> Exited)"
proof -
  have caught: "renderMainFrom l d q0
            = renderMainFrom initialLocals (d1\<lparr>errorLog := errorLog d1 @ [e]\<rparr>) q1
          \<and> running (d1\<lparr>errorLog := errorLog d1 @ [e]\<rparr>)
          \<and> fst (renderMainFrom l d q0) \<noteq> Exited"
    if r: "running d" and p: "processLoop l d q0 = (Raised (Thrown e), d1, q1)"
  proof -
    from running_processLoop [OF p] r have r1: "running (d1\<lparr>errorLog := errorLog d1 @ [e]\<rparr>)"
      by simp
    have eq: "renderMainFrom l d q0 = renderMain (d1\<lparr>errorLog := errorLog d1 @ [e]\<rparr>) q1"
      using p by (simp add: renderMainFrom_def)
    with r1 renderMain_never_exits [OF r1, of q1] show ?thesis
      by (simp add: renderMain_running)
  qed
  have dropped: "processLoop l d ((pre @ c # post) # q) = (Raised (Thrown e), d1, q)"
    if "drainBuffer l d pre = (BufferEmpty, l0, d0)" and "execute c l0 d0 = (Some (Thrown e), l1, d1)"
    using that by (simp add: drainBuffer_append del: execute.simps)
  show ?thesis
    using caught dropped renderMain_never_exits [of d q] by blast
qed

theorem exception_caught_and_loop_continues_witness:
  "renderMainFrom initialLocals exampleDevice
      [[InvalidCommand, SetViewportCommand exampleRect], [SetViewportCommand exampleRect]]
     = (Blocked initialLocals,
        exampleDevice\<lparr>errorLog := [runtime_error ''Invalid command''],
                        calls := [RSSetViewports exampleRect]\<rparr>, [])
   \<and> processLoop initialLocals exampleDevice
      [[InvalidCommand, SetViewportCommand exampleRect], [InvalidCommand]]
     = (Raised (Thrown (runtime_error ''Invalid command'')), exampleDevice,
        [[InvalidCommand]])
   \<and> fst (renderMain exampleDevice [[InvalidCommand]]) \<noteq> Exited"
proof -
  let ?v = "SetViewportCommand exampleRect"
  let ?e = "runtime_error ''Invalid command''"
  let ?q0 = "[[InvalidCommand, ?v], [?v]]"
  let ?dl = "exampleDevice\<lparr>errorLog := errorLog exampleDevice @ [?e]\<rparr>"
  have p: "processLoop initialLocals exampleDevice ?q0
      = (Raised (Thrown ?e), exampleDevice, [[?v]])"
    by simp
  have a: "drainBuffer initialLocals exampleDevice [] = (BufferEmpty, initialLocals, exampleDevice)"
    by simp
  have b: "execute InvalidCommand initialLocals exampleDevice
      = (Some (Thrown ?e), initialLocals, exampleDevice)"
    by simp
  have rest: "renderMainFrom initialLocals ?dl [[?v]]
      = (Blocked initialLocals,
         exampleDevice\<lparr>errorLog := [?e], calls := [RSSetViewports exampleRect]\<rparr>, [])"
    by (simp add: renderMainFrom_def executeSetViewport_def call_def)
  from exception_caught_and_loop_continues [where d = exampleDevice and l = initialLocals
      and ?q0.0 = ?q0 and e = ?e and ?d1.0 = exampleDevice and ?q1.0 = "[[?v]]" and pre = "[]"
      and ?l0.0 = initialLocals and ?d0.0 = exampleDevice and c = InvalidCommand
      and ?l1.0 = initialLocals and post = "[?v]" and q = "[[InvalidCommand]]"]
    p a b rest
  show ?thesis
    by (simp del: drainBuffer.simps processLoop.simps execute.simps)
qed





section \<open>The resource slot of \<^verbatim>\<open>deleteResource\<close>\<close>

lemma unat_handle_max: "unat (- 1 :: size_t) = 2 ^ 64 - 1"
  by (simp add: unsigned_minus_1_eq_mask mask_eq_exp_minus_1)

lemma unat_handle_minus_one:
  "unat ((h :: size_t) - 1) = (if h = 0 then 2 ^ 64 - 1 else unat h - 1)"
  by (simp add: unat_minus_one unsigned_minus_1_eq_mask mask_eq_exp_minus_1)

text \<open>
  Claim C10. \<^verbatim>\<open>deleteResource\<close> indexes the table at \<open>handle - 1\<close> and tests
  nothing: for a table of fewer than \<open>2^64\<close> slots (every \<^verbatim>\<open>std::vector\<close> is) the
  command stays inside the table exactly when \<open>1 \<le> handle \<le> size\<close>; for handle 0 the
  index wraps to \<open>2^64 - 1\<close> and lies outside; and inside the table the slot is reset
  whether it holds an object or not.
\<close>

theorem deleteResource_slot_in_bounds:
  "length (resources d) < 2 ^ 64 \<longrightarrow>
     (fst (execute (DeleteResourceCommand h) l d) = None)
        = (1 \<le> unat h \<and> unat h \<le> length (resources d))
     \<and> (unat (h - 1) < length (resources d)) = (1 \<le> unat h \<and> unat h \<le> length (resources d))
     \<and> unat ((0 :: size_t) - 1) = 2 ^ 64 - 1
     \<and> execute (DeleteResourceCommand 0) l d
         = (Some (Fatal ''resources: index out of range''), l, d)
     \<and> (unat (h - 1) < length (resources d) \<longrightarrow>
           execute (DeleteResourceCommand h) l d
             = (None, l, (release (resources d ! unat (h - 1)) d)
                           \<lparr>resources := (resources d)[unat (h - 1) := None]\<rparr>))"
proof
  assume len: "length (resources d) < 2 ^ 64"
  have idx: "(unat (h - 1) < length (resources d)) = (1 \<le> unat h \<and> unat h \<le> length (resources d))"
  proof (cases "h = 0")
    case True
    with len show ?thesis by (simp add: unat_handle_max)
  next
    case False
    then have "unat h \<noteq> 0" by (simp add: unat_eq_0)
    with False show ?thesis by (auto simp: unat_handle_minus_one)
  qed
  have zero: "\<not> unat ((0 :: size_t) - 1) < length (resources d)"
    using len by (simp add: unat_handle_max)
  show "(fst (execute (DeleteResourceCommand h) l d) = None)
        = (1 \<le> unat h \<and> unat h \<le> length (resources d))
     \<and> (unat (h - 1) < length (resources d)) = (1 \<le> unat h \<and> unat h \<le> length (resources d))
     \<and> unat ((0 :: size_t) - 1) = 2 ^ 64 - 1
     \<and> execute (DeleteResourceCommand 0) l d
         = (Some (Fatal ''resources: index out of range''), l, d)
     \<and> (unat (h - 1) < length (resources d) \<longrightarrow>
           execute (DeleteResourceCommand h) l d
             = (None, l, (release (resources d ! unat (h - 1)) d)
                           \<lparr>resources := (resources d)[unat (h - 1) := None]\<rparr>))"
    using idx zero by (simp add: executeDeleteResource_def unat_handle_max)
qed


theorem deleteResource_slot_in_bounds_witness:
  "(fst (execute (DeleteResourceCommand 1) initialLocals (exampleDevice\<lparr>resources := [None]\<rparr>)) = None)
   \<and> execute (DeleteResourceCommand 1) initialLocals (exampleDevice\<lparr>resources := [None]\<rparr>)
       = (None, initialLocals, exampleDevice\<lparr>resources := [None]\<rparr>)
   \<and> fst (execute (DeleteResourceCommand 2) initialLocals (exampleDevice\<lparr>resources := [None]\<rparr>))
       \<noteq> None
   \<and> execute (DeleteResourceCommand 0) initialLocals (exampleDevice\<lparr>resources := [None]\<rparr>)
       = (Some (Fatal ''resources: index out of range''), initialLocals,
          exampleDevice\<lparr>resources := [None]\<rparr>)"
proof -
  let ?d = "exampleDevice\<lparr>resources := [None]\<rparr>"
  have len: "length (resources ?d) < 2 ^ 64" by simp
  from deleteResource_slot_in_bounds [of ?d 1 initialLocals]
    deleteResource_slot_in_bounds [of ?d 2 initialLocals] len
  show ?thesis
    by (simp add: release_def del: execute.simps)
qed

section \<open>Clearing\<close>

text \<open>
  Claim C3 fails on the code in the default-framebuffer branch. A clear command with only
  \<^verbatim>\<open>clearStencilBuffer\<close> set makes no backend call at all when no render target is
  bound (the branch tests \<^verbatim>\<open>clearDepthBuffer\<close> alone), whereas with a render target
  bound the same command clears the stencil of its depth/stencil view (that branch
  tests \<^verbatim>\<open>clearDepthBuffer || clearStencilBuffer\<close>).
\<close>

theorem clearRenderTarget_stencil_only:
  "(currentRenderTarget l = None \<longrightarrow>
      execute (ClearRenderTargetCommand False False True clearColor clearDepth clearStencil) l d
        = (None, l, d))
   \<and> (currentRenderTarget l = Some a \<and> deref asRenderTarget d a = Inr t
        \<and> getDepthStencilView t = Some view \<longrightarrow>
      execute (ClearRenderTargetCommand False False True clearColor clearDepth clearStencil) l d
        = (None, l, call (ClearDepthStencilView (Some view) False True clearDepth
                            (ucast clearStencil)) d))"
  by (simp add: executeClearRenderTarget_def)

theorem clearRenderTarget_stencil_only_witness:
  "execute (ClearRenderTargetCommand False False True exampleColor 0x3F800000 0)
      initialLocals exampleDevice
     = (None, initialLocals, exampleDevice)
   \<and> execute (ClearRenderTargetCommand False False True exampleColor 0x3F800000 0)
      (initialLocals\<lparr>currentRenderTarget := Some 20\<rparr>)
      (exampleDevice\<lparr>objects := [20 \<mapsto> exampleTarget]\<rparr>)
     = (None, initialLocals\<lparr>currentRenderTarget := Some 20\<rparr>,
        exampleDevice\<lparr>objects := [20 \<mapsto> exampleTarget],
           calls := [ClearDepthStencilView (Some 22) False True 0x3F800000 0]\<rparr>)"
proof -
  let ?l = "initialLocals\<lparr>currentRenderTarget := Some 20\<rparr>"
  let ?d = "exampleDevice\<lparr>objects := [20 \<mapsto> exampleTarget]\<rparr>"
  have a: "currentRenderTarget initialLocals = None" by (simp add: initialLocals_def)
  have b: "currentRenderTarget ?l = Some 20" by simp
  have c: "deref asRenderTarget ?d 20
      = Inr \<lparr>getRenderTargetViews = [21], getDepthStencilView = Some 22\<rparr>"
    by (simp add: deref_def asRenderTarget_def exampleTarget_def)
  from clearRenderTarget_stencil_only [of initialLocals exampleColor "0x3F800000" 0 exampleDevice]
    clearRenderTarget_stencil_only [of ?l exampleColor "0x3F800000" 0 ?d 20
      "\<lparr>getRenderTargetViews = [21], getDepthStencilView = Some 22\<rparr>" 22] a b c
  show ?thesis
    by (simp add: call_def del: execute.simps)
qed


section \<open>The rasterizer-state table and its index\<close>

lemma CreateRasterizerState_result:
  "CreateRasterizerState desc d = (hr, st, d1) \<Longrightarrow>
     rasterizerStates d1 = rasterizerStates d \<and> sampleCount d1 = sampleCount d
     \<and> (\<exists>a. st = \<lparr>rsAddr = a, rsDesc = desc\<rparr>)"
  by (auto simp: CreateRasterizerState_def fallible_def call_def newObject_def Let_def
      split: list.splits prod.splits)

lemma rasterStateDesc_sampleCount:
  "sampleCount d' = sampleCount d \<Longrightarrow> rasterStateDesc d' f s c = rasterStateDesc d f s c"
  by (simp add: rasterStateDesc_def)

lemma cullModeLoop_table:
  "cullModeLoop n f s i d = (None, i', d') \<Longrightarrow> n \<le> cullModeCount \<Longrightarrow>
     i' = i + n \<and> length (rasterizerStates d') = length (rasterizerStates d)
     \<and> sampleCount d' = sampleCount d
     \<and> (\<forall>j < i. rasterizerStates d' ! j = rasterizerStates d ! j)
     \<and> (\<forall>k < n. i + k < length (rasterizerStates d) \<longrightarrow>
           (\<exists>a. rasterizerStates d' ! (i + k)
                 = Some \<lparr>rsAddr = a, rsDesc = rasterStateDesc d f s (cullModeCount - n + k)\<rparr>))"
proof (induction n arbitrary: i d)
  case 0
  then show ?case by simp
next
  case (Suc n)
  obtain hr st d1 where
    cr: "CreateRasterizerState (rasterStateDesc d f s (cullModeCount - Suc n)) d = (hr, st, d1)"
    by (metis prod_cases3)
  from CreateRasterizerState_result [OF cr] obtain a where
    fr: "rasterizerStates d1 = rasterizerStates d" "sampleCount d1 = sampleCount d"
      "st = \<lparr>rsAddr = a, rsDesc = rasterStateDesc d f s (cullModeCount - Suc n)\<rparr>"
    by auto
  let ?d2 = "d1\<lparr>rasterizerStates := (rasterizerStates d1)[i := Some st]\<rparr>"
  from Suc.prems(1) cr have rec: "cullModeLoop n f s (Suc i) ?d2 = (None, i', d')"
    by (auto simp: Let_def split: if_splits)
  from Suc.prems(2) have le: "n \<le> cullModeCount" by simp
  note IH = Suc.IH [OF rec le]
  have sc: "sampleCount ?d2 = sampleCount d" using fr by simp
  have len2: "length (rasterizerStates ?d2) = length (rasterizerStates d)" using fr by simp
  have 1: "i' = i + Suc n" using IH by simp
  have 2: "length (rasterizerStates d') = length (rasterizerStates d)" using IH len2 by simp
  have 3: "sampleCount d' = sampleCount d" using IH sc by simp
  have 4: "\<forall>j < i. rasterizerStates d' ! j = rasterizerStates d ! j"
  proof (intro allI impI)
    fix j assume "j < i"
    then have "rasterizerStates d' ! j = rasterizerStates ?d2 ! j" using IH by simp
    also have "\<dots> = rasterizerStates d ! j" using \<open>j < i\<close> fr by simp
    finally show "rasterizerStates d' ! j = rasterizerStates d ! j" .
  qed
  have 5: "\<forall>k < Suc n. i + k < length (rasterizerStates d) \<longrightarrow>
           (\<exists>a. rasterizerStates d' ! (i + k)
                 = Some \<lparr>rsAddr = a, rsDesc = rasterStateDesc d f s (cullModeCount - Suc n + k)\<rparr>)"
  proof (intro allI impI)
    fix k assume k: "k < Suc n" and inb: "i + k < length (rasterizerStates d)"
    show "\<exists>a. rasterizerStates d' ! (i + k)
                 = Some \<lparr>rsAddr = a, rsDesc = rasterStateDesc d f s (cullModeCount - Suc n + k)\<rparr>"
    proof (cases k)
      case 0
      have "rasterizerStates d' ! i = rasterizerStates ?d2 ! i" using IH by simp
      also have "\<dots> = Some st" using inb 0 fr by simp
      finally show ?thesis using 0 fr(3) by simp
    next
      case (Suc k')
      then have k': "k' < n" using k by simp
      have "Suc i + k' < length (rasterizerStates ?d2)" using inb Suc len2 by simp
      with IH k' obtain b where
        "rasterizerStates d' ! (Suc i + k')
           = Some \<lparr>rsAddr = b, rsDesc = rasterStateDesc ?d2 f s (cullModeCount - n + k')\<rparr>"
        by blast
      moreover have "cullModeCount - n + k' = cullModeCount - Suc n + k"
        using Suc Suc.prems(2) by simp
      ultimately show ?thesis
        using Suc rasterStateDesc_sampleCount [OF sc] by auto
    qed
  qed
  from 1 2 3 4 5 show ?case by blast
qed


lemma scissorEnableLoop_table:
  "scissorEnableLoop n f i d = (None, i', d') \<Longrightarrow> n \<le> scissorModeCount \<Longrightarrow>
     i' = i + n * cullModeCount \<and> length (rasterizerStates d') = length (rasterizerStates d)
     \<and> sampleCount d' = sampleCount d
     \<and> (\<forall>j < i. rasterizerStates d' ! j = rasterizerStates d ! j)
     \<and> (\<forall>k < n. \<forall>c < cullModeCount. i + k * cullModeCount + c < length (rasterizerStates d) \<longrightarrow>
           (\<exists>a. rasterizerStates d' ! (i + k * cullModeCount + c)
                 = Some \<lparr>rsAddr = a,
                          rsDesc = rasterStateDesc d f (scissorModeCount - n + k) c\<rparr>))"
proof (induction n arbitrary: i d)
  case 0
  then show ?case by simp
next
  case (Suc n)
  obtain e i1 d1 where
    cl: "cullModeLoop cullModeCount f (scissorModeCount - Suc n) i d = (e, i1, d1)"
    by (metis prod_cases3)
  from Suc.prems(1) cl have e: "e = None"
    and rec: "scissorEnableLoop n f i1 d1 = (None, i', d')"
    by (auto split: option.splits)
  note C = cullModeLoop_table [OF cl [unfolded e] order_refl]
  from Suc.prems(2) have le: "n \<le> scissorModeCount" by simp
  note IH = Suc.IH [OF rec le]
  have i1: "i1 = i + cullModeCount" using C by simp
  have sc: "sampleCount d1 = sampleCount d" using C by simp
  have len1: "length (rasterizerStates d1) = length (rasterizerStates d)" using C by simp
  have 1: "i' = i + Suc n * cullModeCount" using IH i1 by simp
  have 2: "length (rasterizerStates d') = length (rasterizerStates d)" using IH len1 by simp
  have 3: "sampleCount d' = sampleCount d" using IH sc by simp
  have 4: "\<forall>j < i. rasterizerStates d' ! j = rasterizerStates d ! j"
  proof (intro allI impI)
    fix j assume j: "j < i"
    then have "j < i1" using i1 by simp
    then have "rasterizerStates d' ! j = rasterizerStates d1 ! j" using IH by simp
    also have "\<dots> = rasterizerStates d ! j" using j C by simp
    finally show "rasterizerStates d' ! j = rasterizerStates d ! j" .
  qed
  have 5: "\<forall>k < Suc n. \<forall>c < cullModeCount.
           i + k * cullModeCount + c < length (rasterizerStates d) \<longrightarrow>
           (\<exists>a. rasterizerStates d' ! (i + k * cullModeCount + c)
                 = Some \<lparr>rsAddr = a,
                          rsDesc = rasterStateDesc d f (scissorModeCount - Suc n + k) c\<rparr>)"
  proof (intro allI impI)
    fix k c
    assume k: "k < Suc n" and c: "c < cullModeCount"
      and inb: "i + k * cullModeCount + c < length (rasterizerStates d)"
    show "\<exists>a. rasterizerStates d' ! (i + k * cullModeCount + c)
                 = Some \<lparr>rsAddr = a,
                          rsDesc = rasterStateDesc d f (scissorModeCount - Suc n + k) c\<rparr>"
    proof (cases k)
      case 0
      have "i + c < i1" using c i1 by simp
      then have "rasterizerStates d' ! (i + c) = rasterizerStates d1 ! (i + c)" using IH by simp
      moreover from C c inb 0 obtain a where
        "rasterizerStates d1 ! (i + c)
           = Some \<lparr>rsAddr = a,
                    rsDesc = rasterStateDesc d f (scissorModeCount - Suc n)
                               (cullModeCount - cullModeCount + c)\<rparr>"
        by auto
      ultimately show ?thesis using 0 by simp
    next
      case (Suc k')
      then have k': "k' < n" using k by simp
      have idx: "i + k * cullModeCount + c = i1 + k' * cullModeCount + c"
        using Suc i1 by simp
      then have "i1 + k' * cullModeCount + c < length (rasterizerStates d1)"
        using inb len1 by simp
      with IH k' c obtain b where
        "rasterizerStates d' ! (i1 + k' * cullModeCount + c)
           = Some \<lparr>rsAddr = b, rsDesc = rasterStateDesc d1 f (scissorModeCount - n + k') c\<rparr>"
        by blast
      moreover have "scissorModeCount - n + k' = scissorModeCount - Suc n + k"
        using Suc Suc.prems(2) by simp
      ultimately show ?thesis
        using idx rasterStateDesc_sampleCount [OF sc] by auto
    qed
  qed
  from 1 2 3 4 5 show ?case by blast
qed

lemma fillModeLoop_table:
  "fillModeLoop n i d = (None, i', d') \<Longrightarrow> n \<le> fillModeCount \<Longrightarrow>
     length (rasterizerStates d') = length (rasterizerStates d)
     \<and> sampleCount d' = sampleCount d
     \<and> (\<forall>j < i. rasterizerStates d' ! j = rasterizerStates d ! j)
     \<and> (\<forall>k < n. \<forall>s < scissorModeCount. \<forall>c < cullModeCount.
           i + k * (scissorModeCount * cullModeCount) + s * cullModeCount + c
             < length (rasterizerStates d) \<longrightarrow>
           (\<exists>a. rasterizerStates d'
                   ! (i + k * (scissorModeCount * cullModeCount) + s * cullModeCount + c)
                 = Some \<lparr>rsAddr = a, rsDesc = rasterStateDesc d (fillModeCount - n + k) s c\<rparr>))"
proof (induction n arbitrary: i d)
  case 0
  then show ?case by simp
next
  case (Suc n)
  let ?stride = "scissorModeCount * cullModeCount"
  obtain e i1 d1 where
    sl: "scissorEnableLoop scissorModeCount (fillModeCount - Suc n) i d = (e, i1, d1)"
    by (metis prod_cases3)
  from Suc.prems(1) sl have e: "e = None"
    and rec: "fillModeLoop n i1 d1 = (None, i', d')"
    by (auto split: option.splits)
  note S = scissorEnableLoop_table [OF sl [unfolded e] order_refl]
  from Suc.prems(2) have le: "n \<le> fillModeCount" by simp
  note IH = Suc.IH [OF rec le]
  have i1: "i1 = i + ?stride" using S by simp
  have sc: "sampleCount d1 = sampleCount d" using S by simp
  have len1: "length (rasterizerStates d1) = length (rasterizerStates d)" using S by simp
  have 2: "length (rasterizerStates d') = length (rasterizerStates d)" using IH len1 by simp
  have 3: "sampleCount d' = sampleCount d" using IH sc by simp
  have 4: "\<forall>j < i. rasterizerStates d' ! j = rasterizerStates d ! j"
  proof (intro allI impI)
    fix j assume j: "j < i"
    then have "j < i1" using i1 by simp
    then have "rasterizerStates d' ! j = rasterizerStates d1 ! j" using IH by simp
    also have "\<dots> = rasterizerStates d ! j" using j S by simp
    finally show "rasterizerStates d' ! j = rasterizerStates d ! j" .
  qed
  have 5: "\<forall>k < Suc n. \<forall>s < scissorModeCount. \<forall>c < cullModeCount.
           i + k * ?stride + s * cullModeCount + c < length (rasterizerStates d) \<longrightarrow>
           (\<exists>a. rasterizerStates d' ! (i + k * ?stride + s * cullModeCount + c)
                 = Some \<lparr>rsAddr = a, rsDesc = rasterStateDesc d (fillModeCount - Suc n + k) s c\<rparr>)"
  proof (intro allI impI)
    fix k s c
    assume k: "k < Suc n" and s: "s < scissorModeCount" and c: "c < cullModeCount"
      and inb: "i + k * ?stride + s * cullModeCount + c < length (rasterizerStates d)"
    show "\<exists>a. rasterizerStates d' ! (i + k * ?stride + s * cullModeCount + c)
                 = Some \<lparr>rsAddr = a, rsDesc = rasterStateDesc d (fillModeCount - Suc n + k) s c\<rparr>"
    proof (cases k)
      case 0
      have "s * cullModeCount + c < ?stride"
      proof -
        have "s * cullModeCount + c < s * cullModeCount + cullModeCount" using c by simp
        also have "\<dots> = Suc s * cullModeCount" by simp
        also have "\<dots> \<le> ?stride" using s by (simp only: mult_le_mono1 Suc_leI)
        finally show ?thesis .
      qed
      then have "i + s * cullModeCount + c < i1" using i1 by simp
      then have "rasterizerStates d' ! (i + s * cullModeCount + c)
          = rasterizerStates d1 ! (i + s * cullModeCount + c)" using IH by simp
      moreover from S have "\<forall>k < scissorModeCount. \<forall>c < cullModeCount.
           i + k * cullModeCount + c < length (rasterizerStates d) \<longrightarrow>
           (\<exists>a. rasterizerStates d1 ! (i + k * cullModeCount + c)
                 = Some \<lparr>rsAddr = a,
                          rsDesc = rasterStateDesc d (fillModeCount - Suc n)
                                     (scissorModeCount - scissorModeCount + k) c\<rparr>)"
        by blast
      from this [rule_format, OF s c] inb 0 obtain a where
        "rasterizerStates d1 ! (i + s * cullModeCount + c)
           = Some \<lparr>rsAddr = a,
                    rsDesc = rasterStateDesc d (fillModeCount - Suc n)
                               (scissorModeCount - scissorModeCount + s) c\<rparr>"
        by auto
      ultimately show ?thesis using 0 by simp
    next
      case (Suc k')
      then have k': "k' < n" using k by simp
      have idx: "i + k * ?stride + s * cullModeCount + c
          = i1 + k' * ?stride + s * cullModeCount + c"
        using Suc i1 by simp
      then have "i1 + k' * ?stride + s * cullModeCount + c < length (rasterizerStates d1)"
        using inb len1 by simp
      with IH k' s c obtain b where
        "rasterizerStates d' ! (i1 + k' * ?stride + s * cullModeCount + c)
           = Some \<lparr>rsAddr = b, rsDesc = rasterStateDesc d1 (fillModeCount - n + k') s c\<rparr>"
        by blast
      moreover have "fillModeCount - n + k' = fillModeCount - Suc n + k"
        using Suc Suc.prems(2) by simp
      ultimately show ?thesis
        using idx rasterStateDesc_sampleCount [OF sc] by auto
    qed
  qed
  from 2 3 4 5 show ?case by blast
qed

lemma initRasterizerStates_table:
  assumes init: "initRasterizerStates d0 = (None, d1)"
    and f: "f < fillModeCount" and s: "s < scissorModeCount" and c: "c < cullModeCount"
  shows "\<exists>a. rasterizerStateAt d1 (f * (scissorModeCount * cullModeCount) + s * cullModeCount + c)
           = Some \<lparr>rsAddr = a, rsDesc = rasterStateDesc d0 f s c\<rparr>"
proof -
  let ?d = "d0\<lparr>rasterizerStates := replicate 12 None\<rparr>"
  let ?i = "f * (scissorModeCount * cullModeCount) + s * cullModeCount + c"
  from init obtain i' where fl: "fillModeLoop fillModeCount 0 ?d = (None, i', d1)"
    by (auto simp: initRasterizerStates_def split: prod.splits)
  note F = fillModeLoop_table [OF fl order_refl]
  have bound: "?i < 12"
    using f s c by (simp add: fillModeCount_def scissorModeCount_def cullModeCount_def)
  have len: "length (rasterizerStates d1) = 12" using F by simp
  from F f s c bound obtain a where
    "rasterizerStates d1 ! (0 + ?i)
       = Some \<lparr>rsAddr = a, rsDesc = rasterStateDesc ?d (fillModeCount - fillModeCount + f) s c\<rparr>"
    by (metis (no_types, lifting) add.assoc add_0 length_replicate
        RenderDevice.select_convs(13) RenderDevice.surjective RenderDevice.update_convs(13))
  then show ?thesis
    using bound len by (simp add: rasterizerStateAt_def rasterStateDesc_def)
qed


lemma calls_call [simp]: "calls (call c d) = calls d @ [c]"
  by (simp add: call_def)

lemma rasterizerStateAt_call [simp]: "rasterizerStateAt (call c d) i = rasterizerStateAt d i"
  by (simp add: rasterizerStateAt_def call_def)

text \<open>
  Claim C4, as stated, fails: with wireframe fill, scissor off and no culling the indices
  are 1, 0, 0; the code binds entry 6 of the table, the formula of the claim gives 2, and
  the two entries are different state objects.
\<close>

theorem rasterizer_index_spec_formula_fails:
  "(case execute (SetPipelineStateCommand 0 0 cull_none fill_wireframe) initialLocals exampleDevice of
      (f, l', d') \<Rightarrow>
        f = None \<and> fillModeIndex l' = 1 \<and> scissorEnableIndex l' = 0 \<and> cullModeIndex l' = 0
        \<and> last (calls d') = RSSetState (rasterizerStateAt exampleDevice 6)
        \<and> specRasterizerStateIndex (fillModeIndex l') (scissorEnableIndex l') (cullModeIndex l') = 2
        \<and> last (calls d') \<noteq>
            RSSetState (rasterizerStateAt exampleDevice
              (specRasterizerStateIndex (fillModeIndex l') (scissorEnableIndex l') (cullModeIndex l'))))"
  by (simp add: executeSetPipelineState_def getResource_def initialLocals_def Let_def
      specRasterizerStateIndex_def scissorModeCount_def cullModeCount_def
      rasterizerStateAt_def exampleDevice_eq call_def)

lemma scissor_binds:
  "execute (SetScissorTestCommand enabled rectangle) l d = (f, l', d') \<Longrightarrow>
     f = None \<and> scissorEnableIndex l' = (if enabled then 1 else 0)
     \<and> fillModeIndex l' = fillModeIndex l \<and> cullModeIndex l' = cullModeIndex l
     \<and> last (calls d') = RSSetState (rasterizerStateAt d (rasterizerStateIndex l'))"
  by (auto simp: executeSetScissorTest_def Let_def rasterizerStateIndex_def)

lemma pipeline_binds:
  "execute (SetPipelineStateCommand blendState shader cullMode fillMode) l d = (None, l', d') \<Longrightarrow>
     fillModeIndex l' = (case fillMode of fill_solid \<Rightarrow> 0 | _ \<Rightarrow> 1)
     \<and> cullModeIndex l' = (case cullMode of cull_none \<Rightarrow> 0 | cull_front \<Rightarrow> 1 | _ \<Rightarrow> 2)
     \<and> scissorEnableIndex l' = scissorEnableIndex l
     \<and> last (calls d') = RSSetState (rasterizerStateAt d (rasterizerStateIndex l'))"
  by (cases cullMode; cases fillMode)
     (auto simp: executeSetPipelineState_def Let_def rasterizerStateIndex_def
        split: sum.splits option.splits if_splits)

text \<open>
  Claim C4, amended. After a \<^verbatim>\<open>setScissorTest\<close> and after a \<^verbatim>\<open>setPipelineState\<close> that
  completes, the last backend call is \<^verbatim>\<open>RSSetState\<close> on the table entry at the index
  computed afresh from the three current indices, of which the command has just set its
  own; and that index is \<open>fillModeIndex * (N_scissor * N_cull) + scissorEnableIndex * N_cull
  + cullModeIndex\<close>, the position at which \<^verbatim>\<open>init\<close> has put the state object with that
  fill mode, scissor flag and cull mode.
\<close>

theorem rasterizer_state_recomputed:
  "(execute (SetScissorTestCommand enabled rectangle) l d = (f, l', d') \<longrightarrow>
      f = None \<and> scissorEnableIndex l' = (if enabled then 1 else 0)
      \<and> fillModeIndex l' = fillModeIndex l \<and> cullModeIndex l' = cullModeIndex l
      \<and> last (calls d') = RSSetState (rasterizerStateAt d (rasterizerStateIndex l')))
   \<and> (execute (SetPipelineStateCommand blendState shader cullMode fillMode) l d = (None, l', d') \<longrightarrow>
      fillModeIndex l' = (case fillMode of fill_solid \<Rightarrow> 0 | _ \<Rightarrow> 1)
      \<and> cullModeIndex l' = (case cullMode of cull_none \<Rightarrow> 0 | cull_front \<Rightarrow> 1 | _ \<Rightarrow> 2)
      \<and> scissorEnableIndex l' = scissorEnableIndex l
      \<and> last (calls d') = RSSetState (rasterizerStateAt d (rasterizerStateIndex l')))
   \<and> rasterizerStateIndex l
       = fillModeIndex l * (scissorModeCount * cullModeCount)
           + scissorEnableIndex l * cullModeCount + cullModeIndex l
   \<and> (initRasterizerStates d0 = (None, d1) \<and> fm < fillModeCount \<and> se < scissorModeCount
        \<and> cm < cullModeCount \<longrightarrow>
      (\<exists>a. rasterizerStateAt d1
              (fm * (scissorModeCount * cullModeCount) + se * cullModeCount + cm)
            = Some \<lparr>rsAddr = a, rsDesc = rasterStateDesc d0 fm se cm\<rparr>))"
proof -
  have idx: "rasterizerStateIndex l
       = fillModeIndex l * (scissorModeCount * cullModeCount)
           + scissorEnableIndex l * cullModeCount + cullModeIndex l"
    by (simp add: rasterizerStateIndex_def scissorModeCount_def cullModeCount_def)
  show ?thesis
    using scissor_binds [of enabled rectangle l d f l' d']
      pipeline_binds [of blendState shader cullMode fillMode l d l' d'] idx
      initRasterizerStates_table [of d0 d1 fm se cm]
    by (simp del: execute.simps)
qed

lemma initRasterizerStates_blankDevice: "fst (initRasterizerStates blankDevice) = None"
  by (simp add: blankDevice_def initRasterizerStates_def
      fillModeCount_def scissorModeCount_def cullModeCount_def CreateRasterizerState_def
      fallible_def call_def newObject_def rasterStateDesc_def Let_def FAILED_def eval_nat_numeral)

theorem rasterizer_state_recomputed_witness:
  "fst (execute (SetScissorTestCommand True exampleRect) initialLocals exampleDevice) = None
   \<and> last (calls (snd (snd (execute (SetScissorTestCommand True exampleRect)
                               initialLocals exampleDevice))))
       = RSSetState (rasterizerStateAt exampleDevice 3)
   \<and> last (calls (snd (snd (execute (SetPipelineStateCommand 0 0 cull_back fill_wireframe)
                               initialLocals exampleDevice))))
       = RSSetState (rasterizerStateAt exampleDevice 8)
   \<and> (\<exists>a. rasterizerStateAt (snd (initRasterizerStates blankDevice)) 8
          = Some \<lparr>rsAddr = a, rsDesc = rasterStateDesc blankDevice 1 0 2\<rparr>)"
proof -
  let ?s = "execute (SetScissorTestCommand True exampleRect) initialLocals exampleDevice"
  let ?p = "execute (SetPipelineStateCommand 0 0 cull_back fill_wireframe) initialLocals exampleDevice"
  have p: "fst ?p = None"
    by (simp add: executeSetPipelineState_def getResource_def Let_def)
  then have p': "?p = (None, fst (snd ?p), snd (snd ?p))"
    by (metis prod.collapse)
  have s': "?s = (fst ?s, fst (snd ?s), snd (snd ?s))" by simp
  have i: "initRasterizerStates blankDevice = (None, snd (initRasterizerStates blankDevice))"
    using initRasterizerStates_blankDevice by (metis prod.collapse)
  have l0: "fillModeIndex initialLocals = 0" "scissorEnableIndex initialLocals = 0"
    "cullModeIndex initialLocals = 0"
    by (simp_all add: initialLocals_def)
  from rasterizer_state_recomputed [where enabled = True and rectangle = exampleRect
      and l = initialLocals and d = exampleDevice and f = "fst ?s" and l' = "fst (snd ?s)"
      and d' = "snd (snd ?s)" and fm = 1 and se = 0 and cm = 2 and ?d0.0 = blankDevice
      and ?d1.0 = "snd (initRasterizerStates blankDevice)"] s' i l0
  have A: "fst ?s = None
      \<and> last (calls (snd (snd ?s))) = RSSetState (rasterizerStateAt exampleDevice 3)
      \<and> (\<exists>a. rasterizerStateAt (snd (initRasterizerStates blankDevice)) 8
          = Some \<lparr>rsAddr = a, rsDesc = rasterStateDesc blankDevice 1 0 2\<rparr>)"
    by (simp add: rasterizerStateIndex_def fillModeCount_def scissorModeCount_def
        cullModeCount_def del: execute.simps)
  from rasterizer_state_recomputed [where blendState = 0 and shader = 0 and cullMode = cull_back
      and fillMode = fill_wireframe and l = initialLocals and d = exampleDevice
      and l' = "fst (snd ?p)" and d' = "snd (snd ?p)"] p' l0
  have B: "last (calls (snd (snd ?p))) = RSSetState (rasterizerStateAt exampleDevice 8)"
    by (simp add: rasterizerStateIndex_def fillModeCount_def scissorModeCount_def
        cullModeCount_def del: execute.simps)
  from A B show ?thesis by simp
qed

lemma drainBuffer_append_empty:
  "drainBuffer l d (pre @ cs) = (BufferEmpty, l1, d1) \<Longrightarrow>
     \<exists>l0 d0. drainBuffer l d pre = (BufferEmpty, l0, d0) \<and> drainBuffer l0 d0 cs = (BufferEmpty, l1, d1)"
proof (induction pre arbitrary: l d)
  case Nil
  then show ?case by simp
next
  case (Cons c pre)
  obtain f la da where ex: "execute c l d = (f, la, da)"
    by (cases "execute c l d") auto
  with Cons.prems Cons.IH [of la da] show ?case
    by (auto split: option.splits if_splits)
qed

lemma getResource_call [simp]: "getResource as (call c d) h = getResource as d h"
  by (simp add: getResource_def call_def split: option.splits)

lemma pipeline_then_scissor:
  assumes "execute (SetPipelineStateCommand bs sh cm fm) l0 d0 = (None, la, da)"
    and "execute (SetScissorTestCommand en r) la da = (f, l1, d1)"
  shows "f = None
    \<and> fillModeIndex l1 = (case fm of fill_solid \<Rightarrow> 0 | _ \<Rightarrow> 1)
    \<and> cullModeIndex l1 = (case cm of cull_none \<Rightarrow> 0 | cull_front \<Rightarrow> 1 | _ \<Rightarrow> 2)
    \<and> scissorEnableIndex l1 = (if en then 1 else 0)
    \<and> last (calls d1) = RSSetState (rasterizerStateAt d0 (rasterizerStateIndex l1))"
proof -
  from pipeline_binds [OF assms(1)]
  have P: "fillModeIndex la = (case fm of fill_solid \<Rightarrow> 0 | _ \<Rightarrow> 1)"
    "cullModeIndex la = (case cm of cull_none \<Rightarrow> 0 | cull_front \<Rightarrow> 1 | _ \<Rightarrow> 2)"
    by simp_all
  from scissor_binds [OF assms(2)]
  have S: "f = None" "scissorEnableIndex l1 = (if en then 1 else 0)"
    "fillModeIndex l1 = fillModeIndex la" "cullModeIndex l1 = cullModeIndex la"
    "last (calls d1) = RSSetState (rasterizerStateAt da (rasterizerStateIndex l1))"
    by simp_all
  from configuration_execute [OF assms(1)] have "rasterizerStates da = rasterizerStates d0"
    by (simp add: configuration_def)
  then have "rasterizerStateAt da = rasterizerStateAt d0"
    by (simp add: rasterizerStateAt_def fun_eq_iff)
  with P S show ?thesis by simp
qed

lemma scissor_then_pipeline:
  assumes "execute (SetPipelineStateCommand bs sh cm fm) l0 d0 = (None, la, da)"
  shows "\<exists>lb db l2 d2.
      execute (SetScissorTestCommand en r) l0 d0 = (None, lb, db)
    \<and> execute (SetPipelineStateCommand bs sh cm fm) lb db = (None, l2, d2)
    \<and> fillModeIndex l2 = (case fm of fill_solid \<Rightarrow> 0 | _ \<Rightarrow> 1)
    \<and> cullModeIndex l2 = (case cm of cull_none \<Rightarrow> 0 | cull_front \<Rightarrow> 1 | _ \<Rightarrow> 2)
    \<and> scissorEnableIndex l2 = (if en then 1 else 0)
    \<and> last (calls d2) = RSSetState (rasterizerStateAt d0 (rasterizerStateIndex l2))"
  using assms
  by (cases cm; cases fm)
     (auto simp: executeSetPipelineState_def executeSetScissorTest_def Let_def
        rasterizerStateIndex_def scissorModeCount_def cullModeCount_def
        split: sum.splits option.splits if_splits)

lemma pipeline_without_scissor:
  assumes "execute (SetScissorTestCommand en r) l0 d0 = (g, lb, db)"
    and "execute (SetPipelineStateCommand bs sh cm fm) lb db = (None, l2, d2)"
  shows "\<exists>la da. execute (SetPipelineStateCommand bs sh cm fm) l0 d0 = (None, la, da)"
  using assms
  by (cases cm; cases fm)
     (auto simp: executeSetPipelineState_def executeSetScissorTest_def Let_def
        split: sum.splits option.splits if_splits)


lemma pipeline_scissor_forward:
  "drainBuffer l d (pre @ [SetPipelineStateCommand blendState shader cullMode fillMode,
                            SetScissorTestCommand enabled rectangle]) = (BufferEmpty, l1, d1)
   \<longrightarrow> (\<exists>l2 d2.
          drainBuffer l d (pre @ [SetScissorTestCommand enabled rectangle,
                                   SetPipelineStateCommand blendState shader cullMode fillMode])
            = (BufferEmpty, l2, d2)
        \<and> last (calls d2) = last (calls d1)
        \<and> fillModeIndex l2 = fillModeIndex l1 \<and> scissorEnableIndex l2 = scissorEnableIndex l1
        \<and> cullModeIndex l2 = cullModeIndex l1)
      \<and> last (calls d1) =
          RSSetState (rasterizerStateAt d
            ((case fillMode of fill_solid \<Rightarrow> 0 | _ \<Rightarrow> 1) * 6
             + (if enabled then 1 else 0) * 3
             + (case cullMode of cull_none \<Rightarrow> 0 | cull_front \<Rightarrow> 1 | _ \<Rightarrow> 2)))"
proof
  let ?P = "SetPipelineStateCommand blendState shader cullMode fillMode"
  let ?S = "SetScissorTestCommand enabled rectangle"
  let ?i = "(case fillMode of fill_solid \<Rightarrow> 0 | _ \<Rightarrow> 1) * 6 + (if enabled then 1 else 0) * 3
             + (case cullMode of cull_none \<Rightarrow> 0 | cull_front \<Rightarrow> 1 | _ \<Rightarrow> 2) :: nat"
  assume run: "drainBuffer l d (pre @ [?P, ?S]) = (BufferEmpty, l1, d1)"
  from drainBuffer_append_empty [OF run] obtain l0 d0 where
    pre: "drainBuffer l d pre = (BufferEmpty, l0, d0)"
    and ps: "drainBuffer l0 d0 [?P, ?S] = (BufferEmpty, l1, d1)"
    by blast
  obtain f la da where p: "execute ?P l0 d0 = (f, la, da)"
    by (cases "execute ?P l0 d0") auto
  with ps have f: "f = None" by (auto simp del: execute.simps split: option.splits)
  obtain g lc dc where s: "execute ?S la da = (g, lc, dc)"
    by (cases "execute ?S la da") auto
  from ps p f s have lc: "lc = l1" "dc = d1"
    by (auto simp del: execute.simps split: option.splits)
  note PS = pipeline_then_scissor [OF p [unfolded f] s [unfolded lc]]
  from scissor_then_pipeline [OF p [unfolded f], of enabled rectangle] obtain lb db l2 d2 where
    SP: "execute ?S l0 d0 = (None, lb, db)" "execute ?P lb db = (None, l2, d2)"
      "fillModeIndex l2 = (case fillMode of fill_solid \<Rightarrow> 0 | _ \<Rightarrow> 1)"
      "cullModeIndex l2 = (case cullMode of cull_none \<Rightarrow> 0 | cull_front \<Rightarrow> 1 | _ \<Rightarrow> 2)"
      "scissorEnableIndex l2 = (if enabled then 1 else 0)"
      "last (calls d2) = RSSetState (rasterizerStateAt d0 (rasterizerStateIndex l2))"
    by blast
  from configuration_drainBuffer [OF pre] have "rasterizerStates d0 = rasterizerStates d"
    by (simp add: configuration_def)
  then have tab: "rasterizerStateAt d0 = rasterizerStateAt d"
    by (simp add: rasterizerStateAt_def fun_eq_iff)
  have sp: "drainBuffer l d (pre @ [?S, ?P]) = (BufferEmpty, l2, d2)"
    using SP(1,2) by (simp add: drainBuffer_append [OF pre] del: execute.simps)
  have idx1: "rasterizerStateIndex l1 = ?i" and idx2: "rasterizerStateIndex l2 = ?i"
    using PS SP(3-5)
    by (simp_all add: rasterizerStateIndex_def scissorModeCount_def cullModeCount_def)
  show "(\<exists>l2 d2.
          drainBuffer l d (pre @ [?S, ?P]) = (BufferEmpty, l2, d2)
        \<and> last (calls d2) = last (calls d1)
        \<and> fillModeIndex l2 = fillModeIndex l1 \<and> scissorEnableIndex l2 = scissorEnableIndex l1
        \<and> cullModeIndex l2 = cullModeIndex l1)
      \<and> last (calls d1) = RSSetState (rasterizerStateAt d ?i)"
    using sp PS SP(3-6) idx1 idx2 tab by auto
qed

lemma drainBuffer_two:
  "drainBuffer l0 d0 [c1, c2] = (BufferEmpty, l2, d2) \<Longrightarrow>
     \<exists>l1 d1. execute c1 l0 d0 = (None, l1, d1) \<and> execute c2 l1 d1 = (None, l2, d2)"
  by (auto simp del: execute.simps split: prod.splits option.splits if_splits)

text \<open>
  Claim C5. A command sequence ending in \<^verbatim>\<open>setPipelineState\<close> then
  \<^verbatim>\<open>setScissorTest\<close> is drained to its end exactly when the sequence with the two
  swapped is; then both leave the same three indices and the same last backend call,
  and that call binds the table entry given by the fill mode and cull mode of the
  pipeline command and the flag of the scissor command alone.
\<close>

theorem pipeline_scissor_order_irrelevant:
  "(drainBuffer l d (pre @ [SetPipelineStateCommand blendState shader cullMode fillMode,
                             SetScissorTestCommand enabled rectangle]) = (BufferEmpty, l1, d1)
    \<longrightarrow> (\<exists>l2 d2.
          drainBuffer l d (pre @ [SetScissorTestCommand enabled rectangle,
                                   SetPipelineStateCommand blendState shader cullMode fillMode])
            = (BufferEmpty, l2, d2)
        \<and> last (calls d2) = last (calls d1)
        \<and> fillModeIndex l2 = fillModeIndex l1 \<and> scissorEnableIndex l2 = scissorEnableIndex l1
        \<and> cullModeIndex l2 = cullModeIndex l1)
      \<and> last (calls d1) =
          RSSetState (rasterizerStateAt d
            ((case fillMode of fill_solid \<Rightarrow> 0 | _ \<Rightarrow> 1) * 6
             + (if enabled then 1 else 0) * 3
             + (case cullMode of cull_none \<Rightarrow> 0 | cull_front \<Rightarrow> 1 | _ \<Rightarrow> 2))))
   \<and> (drainBuffer l d (pre @ [SetScissorTestCommand enabled rectangle,
                               SetPipelineStateCommand blendState shader cullMode fillMode])
        = (BufferEmpty, l2', d2')
    \<longrightarrow> (\<exists>l1' d1'.
          drainBuffer l d (pre @ [SetPipelineStateCommand blendState shader cullMode fillMode,
                                   SetScissorTestCommand enabled rectangle])
            = (BufferEmpty, l1', d1')
        \<and> last (calls d1') = last (calls d2')
        \<and> fillModeIndex l1' = fillModeIndex l2' \<and> scissorEnableIndex l1' = scissorEnableIndex l2'
        \<and> cullModeIndex l1' = cullModeIndex l2')
      \<and> last (calls d2') =
          RSSetState (rasterizerStateAt d
            ((case fillMode of fill_solid \<Rightarrow> 0 | _ \<Rightarrow> 1) * 6
             + (if enabled then 1 else 0) * 3
             + (case cullMode of cull_none \<Rightarrow> 0 | cull_front \<Rightarrow> 1 | _ \<Rightarrow> 2))))"
proof (intro conjI)
  let ?P = "SetPipelineStateCommand blendState shader cullMode fillMode"
  let ?S = "SetScissorTestCommand enabled rectangle"
  show "drainBuffer l d (pre @ [?P, ?S]) = (BufferEmpty, l1, d1)
    \<longrightarrow> (\<exists>l2 d2.
          drainBuffer l d (pre @ [?S, ?P]) = (BufferEmpty, l2, d2)
        \<and> last (calls d2) = last (calls d1)
        \<and> fillModeIndex l2 = fillModeIndex l1 \<and> scissorEnableIndex l2 = scissorEnableIndex l1
        \<and> cullModeIndex l2 = cullModeIndex l1)
      \<and> last (calls d1) =
          RSSetState (rasterizerStateAt d
            ((case fillMode of fill_solid \<Rightarrow> 0 | _ \<Rightarrow> 1) * 6
             + (if enabled then 1 else 0) * 3
             + (case cullMode of cull_none \<Rightarrow> 0 | cull_front \<Rightarrow> 1 | _ \<Rightarrow> 2)))"
    by (rule pipeline_scissor_forward)
  show "drainBuffer l d (pre @ [?S, ?P]) = (BufferEmpty, l2', d2')
    \<longrightarrow> (\<exists>l1' d1'.
          drainBuffer l d (pre @ [?P, ?S]) = (BufferEmpty, l1', d1')
        \<and> last (calls d1') = last (calls d2')
        \<and> fillModeIndex l1' = fillModeIndex l2' \<and> scissorEnableIndex l1' = scissorEnableIndex l2'
        \<and> cullModeIndex l1' = cullModeIndex l2')
      \<and> last (calls d2') =
          RSSetState (rasterizerStateAt d
            ((case fillMode of fill_solid \<Rightarrow> 0 | _ \<Rightarrow> 1) * 6
             + (if enabled then 1 else 0) * 3
             + (case cullMode of cull_none \<Rightarrow> 0 | cull_front \<Rightarrow> 1 | _ \<Rightarrow> 2)))"
  proof
    assume run: "drainBuffer l d (pre @ [?S, ?P]) = (BufferEmpty, l2', d2')"
    from drainBuffer_append_empty [OF run] obtain l0 d0 where
      pre: "drainBuffer l d pre = (BufferEmpty, l0, d0)"
      and sp: "drainBuffer l0 d0 [?S, ?P] = (BufferEmpty, l2', d2')"
      by blast
    from drainBuffer_two [OF sp] obtain lb db where
      s: "execute ?S l0 d0 = (None, lb, db)" and p: "execute ?P lb db = (None, l2', d2')"
      by blast
    from pipeline_without_scissor [OF s p] obtain la da where
      p0: "execute ?P l0 d0 = (None, la, da)" by blast
    obtain g l1' d1' where s1: "execute ?S la da = (g, l1', d1')"
      by (cases "execute ?S la da") auto
    from pipeline_then_scissor [OF p0 s1] have g: "g = None" by simp
    have ps: "drainBuffer l d (pre @ [?P, ?S]) = (BufferEmpty, l1', d1')"
      using p0 s1 g by (simp add: drainBuffer_append [OF pre] del: execute.simps)
    from pipeline_scissor_forward [of l d pre blendState shader cullMode fillMode enabled
        rectangle l1' d1'] ps run
    show "(\<exists>l1' d1'.
          drainBuffer l d (pre @ [?P, ?S]) = (BufferEmpty, l1', d1')
        \<and> last (calls d1') = last (calls d2')
        \<and> fillModeIndex l1' = fillModeIndex l2' \<and> scissorEnableIndex l1' = scissorEnableIndex l2'
        \<and> cullModeIndex l1' = cullModeIndex l2')
      \<and> last (calls d2') =
          RSSetState (rasterizerStateAt d
            ((case fillMode of fill_solid \<Rightarrow> 0 | _ \<Rightarrow> 1) * 6
             + (if enabled then 1 else 0) * 3
             + (case cullMode of cull_none \<Rightarrow> 0 | cull_front \<Rightarrow> 1 | _ \<Rightarrow> 2)))"
      by auto
  qed
qed

theorem pipeline_scissor_order_irrelevant_witness:
  "drainBuffer initialLocals exampleDevice
      [SetViewportCommand exampleRect, SetPipelineStateCommand 0 0 cull_back fill_wireframe,
       SetScissorTestCommand True exampleRect]
     = (BufferEmpty, initialLocals\<lparr>fillModeIndex := 1, scissorEnableIndex := 1, cullModeIndex := 2\<rparr>,
        exampleDevice\<lparr>calls :=
          [RSSetViewports exampleRect, OMSetBlendState None, PSSetShader None, VSSetShader None,
           IASetInputLayout None, RSSetState (rasterizerStateAt exampleDevice 8),
           RSSetScissorRects exampleRect, RSSetState (rasterizerStateAt exampleDevice 11)]\<rparr>)
   \<and> drainBuffer initialLocals exampleDevice
      [SetViewportCommand exampleRect, SetScissorTestCommand True exampleRect,
       SetPipelineStateCommand 0 0 cull_back fill_wireframe]
     = (BufferEmpty, initialLocals\<lparr>scissorEnableIndex := 1, fillModeIndex := 1, cullModeIndex := 2\<rparr>,
        exampleDevice\<lparr>calls :=
          [RSSetViewports exampleRect, RSSetScissorRects exampleRect,
           RSSetState (rasterizerStateAt exampleDevice 3), OMSetBlendState None, PSSetShader None,
           VSSetShader None, IASetInputLayout None,
           RSSetState (rasterizerStateAt exampleDevice 11)]\<rparr>)
   \<and> (\<exists>l2 d2. drainBuffer initialLocals exampleDevice
          [SetViewportCommand exampleRect, SetScissorTestCommand True exampleRect,
           SetPipelineStateCommand 0 0 cull_back fill_wireframe] = (BufferEmpty, l2, d2)
        \<and> last (calls d2) = RSSetState (rasterizerStateAt exampleDevice 11))
   \<and> (\<exists>l1 d1. drainBuffer initialLocals exampleDevice
          [SetViewportCommand exampleRect, SetPipelineStateCommand 0 0 cull_back fill_wireframe,
           SetScissorTestCommand True exampleRect] = (BufferEmpty, l1, d1)
        \<and> last (calls d1) = RSSetState (rasterizerStateAt exampleDevice 11))"
proof -
  let ?l1 = "initialLocals\<lparr>fillModeIndex := 1, scissorEnableIndex := 1, cullModeIndex := 2\<rparr>"
  let ?d1 = "exampleDevice\<lparr>calls :=
          [RSSetViewports exampleRect, OMSetBlendState None, PSSetShader None, VSSetShader None,
           IASetInputLayout None, RSSetState (rasterizerStateAt exampleDevice 8),
           RSSetScissorRects exampleRect, RSSetState (rasterizerStateAt exampleDevice 11)]\<rparr>"
  let ?l2 = "initialLocals\<lparr>scissorEnableIndex := 1, fillModeIndex := 1, cullModeIndex := 2\<rparr>"
  let ?d2 = "exampleDevice\<lparr>calls :=
          [RSSetViewports exampleRect, RSSetScissorRects exampleRect,
           RSSetState (rasterizerStateAt exampleDevice 3), OMSetBlendState None, PSSetShader None,
           VSSetShader None, IASetInputLayout None,
           RSSetState (rasterizerStateAt exampleDevice 11)]\<rparr>"
  have run: "drainBuffer initialLocals exampleDevice
      ([SetViewportCommand exampleRect] @ [SetPipelineStateCommand 0 0 cull_back fill_wireframe,
       SetScissorTestCommand True exampleRect]) = (BufferEmpty, ?l1, ?d1)"
    by (simp add: executeSetViewport_def executeSetPipelineState_def executeSetScissorTest_def
        getResource_def Let_def initialLocals_def call_def rasterizerStateAt_def)
  have nur: "drainBuffer initialLocals exampleDevice
      ([SetViewportCommand exampleRect] @ [SetScissorTestCommand True exampleRect,
       SetPipelineStateCommand 0 0 cull_back fill_wireframe]) = (BufferEmpty, ?l2, ?d2)"
    by (simp add: executeSetViewport_def executeSetPipelineState_def executeSetScissorTest_def
        getResource_def Let_def initialLocals_def call_def rasterizerStateAt_def)
  from pipeline_scissor_order_irrelevant [where l = initialLocals and d = exampleDevice
      and pre = "[SetViewportCommand exampleRect]" and blendState = 0 and shader = 0
      and cullMode = cull_back and fillMode = fill_wireframe and enabled = True
      and rectangle = exampleRect and ?l1.0 = ?l1 and ?d1.0 = ?d1
      and l2' = ?l2 and d2' = ?d2]
  have "(drainBuffer initialLocals exampleDevice
      ([SetViewportCommand exampleRect] @ [SetPipelineStateCommand 0 0 cull_back fill_wireframe,
       SetScissorTestCommand True exampleRect]) = (BufferEmpty, ?l1, ?d1)
      \<longrightarrow> (\<exists>l2 d2. drainBuffer initialLocals exampleDevice
          ([SetViewportCommand exampleRect] @ [SetScissorTestCommand True exampleRect,
           SetPipelineStateCommand 0 0 cull_back fill_wireframe]) = (BufferEmpty, l2, d2)
        \<and> last (calls d2) = RSSetState (rasterizerStateAt exampleDevice 11)))
    \<and> (drainBuffer initialLocals exampleDevice
      ([SetViewportCommand exampleRect] @ [SetScissorTestCommand True exampleRect,
       SetPipelineStateCommand 0 0 cull_back fill_wireframe]) = (BufferEmpty, ?l2, ?d2)
      \<longrightarrow> (\<exists>l1 d1. drainBuffer initialLocals exampleDevice
          ([SetViewportCommand exampleRect] @ [SetPipelineStateCommand 0 0 cull_back fill_wireframe,
           SetScissorTestCommand True exampleRect]) = (BufferEmpty, l1, d1)
        \<and> last (calls d1) = RSSetState (rasterizerStateAt exampleDevice 11)))"
    by (auto simp del: drainBuffer.simps execute.simps append.simps)
  with run nur show ?thesis
    by (simp del: drainBuffer.simps execute.simps)
qed


section \<open>Resizing the back buffer\<close>

lemma fallible_succeeds:
  "list_all (\<lambda>hr. \<not> FAILED hr) (hresults d) \<Longrightarrow>
     fallible c d = ((case hresults d of [] \<Rightarrow> 0 | hr # _ \<Rightarrow> hr),
                     d\<lparr>calls := calls d @ [c], hresults := tl (hresults d)\<rparr>)"
  by (cases "hresults d") (simp_all add: fallible_def call_def)

lemma head_succeeds:
  "list_all (\<lambda>hr. \<not> FAILED hr) hs \<Longrightarrow> \<not> FAILED (case hs of [] \<Rightarrow> 0 | hr # _ \<Rightarrow> hr)"
  by (cases hs) (simp_all add: FAILED_def)

lemma tl_succeeds:
  "list_all (\<lambda>hr. \<not> FAILED hr) hs \<Longrightarrow> list_all (\<lambda>hr. \<not> FAILED hr) (tl hs)"
  by (cases hs) simp_all


lemma resizeBackBuffer_succeeds:
  assumes "frameBufferWidth d \<noteq> w \<or> frameBufferHeight d \<noteq> h" and "backendSucceeds d"
  shows "resizeBackBuffer w h d =
    (None,
     let W = (if w = 0 then clientWidth d else w);
         H = (if h = 0 then clientHeight d else h);
         n = nextObject d;
         bb = \<lparr>texAddr = n, texDesc = (texDesc (swapChainBuffer d))\<lparr>Width := W, Height := H\<rparr>\<rparr>;
         dsDesc = \<lparr>Width = W, Height = H, Format = DXGI_FORMAT_D32_FLOAT,
                   SampleCount = sampleCount d\<rparr>
     in if depth d then
          d\<lparr>swapChainBuffer := bb, backBuffer := Some bb,
            renderTargetView := Some \<lparr>viewAddr = Suc n, viewOf = n\<rparr>,
            depthStencilTexture := Some \<lparr>texAddr = Suc (Suc n), texDesc = dsDesc\<rparr>,
            depthStencilView := Some \<lparr>viewAddr = Suc (Suc (Suc n)), viewOf = Suc (Suc n)\<rparr>,
            calls := calls d @
              [SwapChain_ResizeBuffers w h, SwapChain_GetBuffer, Device_CreateRenderTargetView n,
               Device_CreateTexture2D dsDesc, Device_CreateDepthStencilView (Suc (Suc n))],
            hresults := tl (tl (tl (tl (tl (hresults d))))),
            nextObject := Suc (Suc (Suc (Suc n))),
            frameBufferWidth := W, frameBufferHeight := H\<rparr>
        else
          d\<lparr>swapChainBuffer := bb, backBuffer := Some bb,
            renderTargetView := Some \<lparr>viewAddr = Suc n, viewOf = n\<rparr>,
            calls := calls d @
              [SwapChain_ResizeBuffers w h, SwapChain_GetBuffer, Device_CreateRenderTargetView n],
            hresults := tl (tl (tl (hresults d))),
            nextObject := Suc (Suc n),
            frameBufferWidth := W, frameBufferHeight := H\<rparr>)"
  using assms
  by (simp add: backendSucceeds_def resizeBackBuffer_def ResizeBuffers_def GetBuffer_def
      CreateRenderTargetView_def CreateTexture2D_def CreateDepthStencilView_def newObject_def
      Let_def fallible_succeeds head_succeeds tl_succeeds)

lemma bookkeeping_fallible: "fallible c d = (hr, d1) \<Longrightarrow> bookkeeping d1 = bookkeeping d"
  by (auto simp add: bookkeeping_def fallible_def call_def split: list.splits)

lemma bookkeeping_newObject: "newObject d = (a, d1) \<Longrightarrow> bookkeeping d1 = bookkeeping d"
  by (auto simp add: bookkeeping_def newObject_def)

lemma bookkeeping_updates [simp]:
  "bookkeeping (d\<lparr>backBuffer := bb\<rparr>) = bookkeeping d"
  "bookkeeping (d\<lparr>renderTargetView := v\<rparr>) = bookkeeping d"
  "bookkeeping (d\<lparr>depthStencilTexture := t\<rparr>) = bookkeeping d"
  "bookkeeping (d\<lparr>depthStencilView := dv\<rparr>) = bookkeeping d"
  "bookkeeping (d\<lparr>frameBufferWidth := w\<rparr>) = bookkeeping d"
  "bookkeeping (d\<lparr>frameBufferHeight := h\<rparr>) = bookkeeping d"
  "bookkeeping (d\<lparr>swapChainBuffer := sb\<rparr>) = bookkeeping d"
  by (simp_all add: bookkeeping_def)

lemma bookkeeping_ResizeBuffers:
  "ResizeBuffers w h d = (hr, d1) \<Longrightarrow> bookkeeping d1 = bookkeeping d"
  unfolding ResizeBuffers_def
  by (auto simp: Let_def split: prod.splits if_splits
      dest!: bookkeeping_fallible bookkeeping_newObject)

lemma bookkeeping_GetBuffer:
  "GetBuffer d = (hr, b, d1) \<Longrightarrow> bookkeeping d1 = bookkeeping d"
  unfolding GetBuffer_def
  by (auto simp: Let_def split: prod.splits dest!: bookkeeping_fallible)

lemma bookkeeping_CreateRenderTargetView:
  "CreateRenderTargetView t d = (hr, b, d1) \<Longrightarrow> bookkeeping d1 = bookkeeping d"
  unfolding CreateRenderTargetView_def
  by (auto simp: Let_def split: prod.splits dest!: bookkeeping_fallible bookkeeping_newObject)

lemma bookkeeping_CreateTexture2D:
  "CreateTexture2D t d = (hr, b, d1) \<Longrightarrow> bookkeeping d1 = bookkeeping d"
  unfolding CreateTexture2D_def
  by (auto simp: Let_def split: prod.splits dest!: bookkeeping_fallible bookkeeping_newObject)

lemma bookkeeping_CreateDepthStencilView:
  "CreateDepthStencilView t d = (hr, b, d1) \<Longrightarrow> bookkeeping d1 = bookkeeping d"
  unfolding CreateDepthStencilView_def
  by (auto simp: Let_def split: prod.splits dest!: bookkeeping_fallible bookkeeping_newObject)

lemma bookkeeping_resizeBackBuffer:
  "resizeBackBuffer w h d = (e, d') \<Longrightarrow> bookkeeping d' = bookkeeping d"
  unfolding resizeBackBuffer_def
  by (auto simp: Let_def split: prod.splits if_splits
      dest!: bookkeeping_ResizeBuffers bookkeeping_GetBuffer bookkeeping_CreateRenderTargetView
        bookkeeping_CreateTexture2D bookkeeping_CreateDepthStencilView)

lemma resizeBackBuffer_throws:
  "resizeBackBuffer w h d = (Some e, d') \<Longrightarrow> \<exists>hr msg. FAILED hr \<and> e = system_error hr msg"
  unfolding resizeBackBuffer_def
  by (auto simp: Let_def split: prod.splits if_splits)

lemma resize_frame:
  assumes "execute (ResizeCommand w h) l d = (f, l', d')"
  shows "l' = l \<and> configuration d' = configuration d \<and> resources d' = resources d
       \<and> objects d' = objects d \<and> errorLog d' = errorLog d
       \<and> (f = None \<or> (\<exists>hr msg. FAILED hr \<and> f = Some (Thrown (system_error hr msg))))"
proof -
  obtain e d1 where r: "resizeBackBuffer w h d = (e, d1)"
    by (cases "resizeBackBuffer w h d") auto
  with assms have eq: "l' = l" "d' = d1" "f = map_option Thrown e"
    by (auto simp: executeResize_def split: option.splits)
  from bookkeeping_resizeBackBuffer [OF r] configuration_resizeBackBuffer [OF r]
    resizeBackBuffer_throws [of w h d _ d1] r eq
  show ?thesis by (cases e) (auto simp: bookkeeping_def)
qed

text \<open>
  Claim C7. A resize to the current dimensions changes nothing. A resize to other
  dimensions, on a backend that fails no call, puts a new back buffer (the swap chain's
  new buffer) and a new view of it in place and, when depth is enabled, a new depth
  texture (created as \<^verbatim>\<open>DXGI_FORMAT_D32_FLOAT\<close> with the device's sample count) and a
  new view of it; the stored dimensions become those of the new back buffer, which are
  the requested ones where they are not zero; the locals, the resource table, its
  objects, the error log and every member gathered in \<open>configuration\<close> stay as they
  were; and the new objects are not the old ones. Whatever the backend does, the
  command ends normally or with a \<^verbatim>\<open>std::system_error\<close> of a failed call, and it
  writes none of those other members.
\<close>

theorem resize_noop_or_reallocate:
  "(frameBufferWidth d = w \<and> frameBufferHeight d = h \<longrightarrow>
      execute (ResizeCommand w h) l d = (None, l, d))
   \<and> ((frameBufferWidth d \<noteq> w \<or> frameBufferHeight d \<noteq> h) \<and> backendSucceeds d
        \<and> execute (ResizeCommand w h) l d = (f, l', d') \<longrightarrow>
      f = None \<and> l' = l
      \<and> (\<exists>bb v. backBuffer d' = Some bb \<and> renderTargetView d' = Some v
            \<and> texAddr bb = nextObject d \<and> viewAddr v = nextObject d + 1 \<and> viewOf v = texAddr bb
            \<and> Width (texDesc bb) = (if w = 0 then clientWidth d else w)
            \<and> Height (texDesc bb) = (if h = 0 then clientHeight d else h)
            \<and> frameBufferWidth d' = Width (texDesc bb)
            \<and> frameBufferHeight d' = Height (texDesc bb)
            \<and> (if depth d
                then \<exists>t dv. depthStencilTexture d' = Some t \<and> depthStencilView d' = Some dv
                       \<and> texAddr t = nextObject d + 2 \<and> viewAddr dv = nextObject d + 3
                       \<and> viewOf dv = texAddr t
                       \<and> texDesc t = \<lparr>Width = Width (texDesc bb), Height = Height (texDesc bb),
                                       Format = DXGI_FORMAT_D32_FLOAT,
                                       SampleCount = sampleCount d\<rparr>
                else depthStencilTexture d' = depthStencilTexture d
                       \<and> depthStencilView d' = depthStencilView d))
      \<and> configuration d' = configuration d \<and> resources d' = resources d
      \<and> objects d' = objects d \<and> errorLog d' = errorLog d
      \<and> (allocatedBelow d \<longrightarrow>
            backBuffer d' \<noteq> backBuffer d \<and> renderTargetView d' \<noteq> renderTargetView d
            \<and> (depth d \<longrightarrow> depthStencilTexture d' \<noteq> depthStencilTexture d
                             \<and> depthStencilView d' \<noteq> depthStencilView d)))
   \<and> (execute (ResizeCommand w h) l d = (f, l', d') \<longrightarrow>
      l' = l \<and> configuration d' = configuration d \<and> resources d' = resources d
      \<and> objects d' = objects d \<and> errorLog d' = errorLog d
      \<and> (f = None \<or> (\<exists>hr msg. FAILED hr \<and> f = Some (Thrown (system_error hr msg)))))"
proof -
  have noop: "execute (ResizeCommand w h) l d = (None, l, d)"
    if "frameBufferWidth d = w" "frameBufferHeight d = h"
    using that by (simp add: executeResize_def resizeBackBuffer_def)
  {
    assume dims: "frameBufferWidth d \<noteq> w \<or> frameBufferHeight d \<noteq> h"
      and ok: "backendSucceeds d"
      and ex: "execute (ResizeCommand w h) l d = (f, l', d')"
    note R = resizeBackBuffer_succeeds [OF dims ok]
    from ex R have f: "f = None" and l: "l' = l" and d': "d' = snd (resizeBackBuffer w h d)"
      by (auto simp: executeResize_def)
    have frame: "configuration d' = configuration d \<and> resources d' = resources d
        \<and> objects d' = objects d \<and> errorLog d' = errorLog d"
      unfolding d' R by (simp add: Let_def configuration_def)
    have bb: "\<exists>bb v. backBuffer d' = Some bb \<and> renderTargetView d' = Some v
            \<and> texAddr bb = nextObject d \<and> viewAddr v = nextObject d + 1 \<and> viewOf v = texAddr bb
            \<and> Width (texDesc bb) = (if w = 0 then clientWidth d else w)
            \<and> Height (texDesc bb) = (if h = 0 then clientHeight d else h)
            \<and> frameBufferWidth d' = Width (texDesc bb)
            \<and> frameBufferHeight d' = Height (texDesc bb)
            \<and> (if depth d
                then \<exists>t dv. depthStencilTexture d' = Some t \<and> depthStencilView d' = Some dv
                       \<and> texAddr t = nextObject d + 2 \<and> viewAddr dv = nextObject d + 3
                       \<and> viewOf dv = texAddr t
                       \<and> texDesc t = \<lparr>Width = Width (texDesc bb), Height = Height (texDesc bb),
                                       Format = DXGI_FORMAT_D32_FLOAT,
                                       SampleCount = sampleCount d\<rparr>
                else depthStencilTexture d' = depthStencilTexture d
                       \<and> depthStencilView d' = depthStencilView d)"
      unfolding d' R by (cases "depth d") (simp_all add: Let_def)
    have fresh: "backBuffer d' \<noteq> backBuffer d \<and> renderTargetView d' \<noteq> renderTargetView d
            \<and> (depth d \<longrightarrow> depthStencilTexture d' \<noteq> depthStencilTexture d
                             \<and> depthStencilView d' \<noteq> depthStencilView d)"
      if "allocatedBelow d"
      using that unfolding d' R
      by (cases "depth d") (auto simp: Let_def allocatedBelow_def split: option.splits)
    note f l bb frame fresh
  }
  note realloc = this
  show ?thesis
    using noop realloc resize_frame [of w h l d f l' d'] by blast
qed


theorem resize_noop_or_reallocate_witness:
  "execute (ResizeCommand 640 480) initialLocals exampleDevice = (None, initialLocals, exampleDevice)
   \<and> fst (execute (ResizeCommand 800 600) initialLocals exampleDevice) = None
   \<and> frameBufferWidth (snd (snd (execute (ResizeCommand 800 600) initialLocals exampleDevice))) = 800
   \<and> frameBufferHeight (snd (snd (execute (ResizeCommand 800 600) initialLocals exampleDevice))) = 600
   \<and> backBuffer (snd (snd (execute (ResizeCommand 800 600) initialLocals exampleDevice)))
       \<noteq> backBuffer exampleDevice
   \<and> (\<exists>t. depthStencilTexture (snd (snd (execute (ResizeCommand 800 600) initialLocals exampleDevice)))
            = Some t
          \<and> texAddr t = 19
          \<and> texDesc t = \<lparr>Width = 800, Height = 600, Format = DXGI_FORMAT_D32_FLOAT,
                          SampleCount = 1\<rparr>)
   \<and> resources (snd (snd (execute (ResizeCommand 800 600) initialLocals exampleDevice)))
       = resources exampleDevice
   \<and> (\<exists>msg. fst (execute (ResizeCommand 800 600) initialLocals (exampleDevice\<lparr>hresults := [- 1]\<rparr>))
          = Some (Thrown (system_error (- 1) msg)))
   \<and> configuration (snd (snd (execute (ResizeCommand 800 600) initialLocals
                                  (exampleDevice\<lparr>hresults := [- 1]\<rparr>))))
       = configuration exampleDevice"
proof -
  let ?x = "execute (ResizeCommand 800 600) initialLocals exampleDevice"
  let ?e = "exampleDevice\<lparr>hresults := [- 1]\<rparr>"
  let ?y = "execute (ResizeCommand 800 600) initialLocals ?e"
  have y: "?y = (fst ?y, fst (snd ?y), snd (snd ?y))" by simp
  have thrown: "\<exists>msg. fst ?y = Some (Thrown (system_error (- 1) msg))"
    by (simp add: executeResize_def resizeBackBuffer_def ResizeBuffers_def fallible_def call_def
        FAILED_def Let_def split_def)
  have ce: "configuration ?e = configuration exampleDevice"
    by (simp add: configuration_def)
  from resize_noop_or_reallocate [where d = ?e and w = 800 and h = 600
      and l = initialLocals and f = "fst ?y" and l' = "fst (snd ?y)" and d' = "snd (snd ?y)"] y
  have C: "configuration (snd (snd ?y)) = configuration ?e"
    by (simp del: execute.simps)
  have x: "?x = (fst ?x, fst (snd ?x), snd (snd ?x))" by simp
  have ok: "backendSucceeds exampleDevice" by (simp add: backendSucceeds_def)
  have al: "allocatedBelow exampleDevice" by (simp add: allocatedBelow_def exampleDevice_eq)
  have dims: "frameBufferWidth exampleDevice \<noteq> 800" by simp
  from resize_noop_or_reallocate [where d = exampleDevice and w = 640 and h = 480
      and l = initialLocals]
  have A: "execute (ResizeCommand 640 480) initialLocals exampleDevice
      = (None, initialLocals, exampleDevice)"
    by (simp del: execute.simps)
  from resize_noop_or_reallocate [where d = exampleDevice and w = 800 and h = 600
      and l = initialLocals and f = "fst ?x" and l' = "fst (snd ?x)" and d' = "snd (snd ?x)"]
    x ok al dims
  have B: "fst ?x = None
   \<and> frameBufferWidth (snd (snd ?x)) = 800
   \<and> frameBufferHeight (snd (snd ?x)) = 600
   \<and> backBuffer (snd (snd ?x)) \<noteq> backBuffer exampleDevice
   \<and> (\<exists>t. depthStencilTexture (snd (snd ?x)) = Some t
          \<and> texAddr t = 19
          \<and> texDesc t = \<lparr>Width = 800, Height = 600, Format = DXGI_FORMAT_D32_FLOAT,
                          SampleCount = 1\<rparr>)
   \<and> resources (snd (snd ?x)) = resources exampleDevice"
    by (auto simp del: execute.simps)
  from A B thrown C ce show ?thesis by simp
qed


section \<open>Shader constants\<close>

lemma constantsLoop_match:
  "sizesMatch cs locations \<Longrightarrow> constantsLoop cs locations msg data = (None, data @ concat cs)"
proof (induction cs arbitrary: locations data)
  case Nil
  then show ?case by simp
next
  case (Cons c cs)
  then show ?case
    by (cases locations) (auto simp: sizesMatch_def)
qed

lemma constantsLoop_mismatch:
  "length cs \<le> length locations \<Longrightarrow> \<not> sizesMatch cs locations \<Longrightarrow>
     fst (constantsLoop cs locations msg data) = Some (Thrown (runtime_error msg))"
proof (induction cs arbitrary: locations data)
  case Nil
  then show ?case by (simp add: sizesMatch_def)
next
  case (Cons c cs)
  then show ?case
    by (cases locations) (auto simp: sizesMatch_def)
qed

text \<open>
  Claim C6, as stated, fails in its last part: with a shader bound whose two stages
  declare one four-byte constant each, a command with a fitting fragment constant and an
  eight-byte vertex constant throws "Invalid vertex shader constant size" after the
  fragment constants have been uploaded (\<^verbatim>\<open>Map\<close>, copy, \<^verbatim>\<open>Unmap\<close>) and bound.
\<close>

theorem shader_constants_upload_before_vertex_check:
  "execute (SetShaderConstantsCommand [[0x3F800000]] [[0x3F800000, 0x3F800000]])
      (initialLocals\<lparr>currentShader := Some 29\<rparr>)
      (exampleDevice\<lparr>objects := [29 \<mapsto> exampleShader]\<rparr>)
     = (Some (Thrown (runtime_error ''Invalid vertex shader constant size'')),
        initialLocals\<lparr>currentShader := Some 29\<rparr>,
        exampleDevice\<lparr>objects := [29 \<mapsto> exampleShader],
          calls := [Context_Map 33, CopyBytes 33 [0x3F800000] 4, Context_Unmap 33,
                    PSSetConstantBuffers 33]\<rparr>)"
  by (simp add: executeSetShaderConstants_def deref_def asShader_def exampleShader_def
      uploadBuffer_def fallible_def call_def FAILED_def Let_def initialLocals_def)

text \<open>
  Claim C6, amended. Without a bound shader the command throws "No shader set" and does
  nothing. With a shader bound, fragment constants that do not fit its locations throw
  "Invalid pixel shader constant size" and the device is left as it was: no backend
  call is made. When the fragment constants fit and their \<^verbatim>\<open>Map\<close> succeeds, vertex
  constants that do not fit throw "Invalid vertex shader constant size"; by then the
  fragment constants have been uploaded and bound, and these four calls are all the
  command has made: nothing is uploaded for the vertex stage.
\<close>

theorem shader_constants_checked:
  "(currentShader l = None \<longrightarrow>
      execute (SetShaderConstantsCommand fs vs) l d
        = (Some (Thrown (runtime_error ''No shader set'')), l, d))
   \<and> (currentShader l = Some p \<and> deref asShader d p = Inr s
        \<and> \<not> sizesMatch fs (getFragmentShaderConstantLocations s) \<longrightarrow>
      (\<exists>l'. execute (SetShaderConstantsCommand fs vs) l d
              = (Some (Thrown (runtime_error ''Invalid pixel shader constant size'')), l', d)))
   \<and> (currentShader l = Some p \<and> deref asShader d p = Inr s
        \<and> sizesMatch fs (getFragmentShaderConstantLocations s)
        \<and> (hresults d = [] \<or> \<not> FAILED (hd (hresults d)))
        \<and> \<not> sizesMatch vs (getVertexShaderConstantLocations s) \<longrightarrow>
      (\<exists>l' d'. execute (SetShaderConstantsCommand fs vs) l d
              = (Some (Thrown (runtime_error ''Invalid vertex shader constant size'')), l', d')
           \<and> calls d' = calls d @
                [Context_Map (getFragmentShaderConstantBuffer s),
                 CopyBytes (getFragmentShaderConstantBuffer s) (concat fs)
                   (of_nat (4 * length (concat fs))),
                 Context_Unmap (getFragmentShaderConstantBuffer s),
                 PSSetConstantBuffers (getFragmentShaderConstantBuffer s)]))"
proof -
  have none: "execute (SetShaderConstantsCommand fs vs) l d
        = (Some (Thrown (runtime_error ''No shader set'')), l, d)"
    if "currentShader l = None"
    using that by (simp add: executeSetShaderConstants_def)
  have frag: "\<exists>l'. execute (SetShaderConstantsCommand fs vs) l d
              = (Some (Thrown (runtime_error ''Invalid pixel shader constant size'')), l', d)"
    if cur: "currentShader l = Some p" "deref asShader d p = Inr s"
      and mis: "\<not> sizesMatch fs (getFragmentShaderConstantLocations s)"
  proof (cases "length (getFragmentShaderConstantLocations s) < length fs")
    case True
    with cur show ?thesis by (simp add: executeSetShaderConstants_def)
  next
    case False
    then have le: "length fs \<le> length (getFragmentShaderConstantLocations s)" by simp
    obtain r data where
      loop: "constantsLoop fs (getFragmentShaderConstantLocations s)
               ''Invalid pixel shader constant size'' [] = (r, data)"
      by (cases "constantsLoop fs (getFragmentShaderConstantLocations s)
               ''Invalid pixel shader constant size'' []") auto
    with constantsLoop_mismatch [OF le mis, of "''Invalid pixel shader constant size''" "[]"]
    have "r = Some (Thrown (runtime_error ''Invalid pixel shader constant size''))" by simp
    with cur False loop show ?thesis by (simp add: executeSetShaderConstants_def)
  qed
  have vert: "\<exists>l' d'. execute (SetShaderConstantsCommand fs vs) l d
              = (Some (Thrown (runtime_error ''Invalid vertex shader constant size'')), l', d')
           \<and> calls d' = calls d @
                [Context_Map (getFragmentShaderConstantBuffer s),
                 CopyBytes (getFragmentShaderConstantBuffer s) (concat fs)
                   (of_nat (4 * length (concat fs))),
                 Context_Unmap (getFragmentShaderConstantBuffer s),
                 PSSetConstantBuffers (getFragmentShaderConstantBuffer s)]"
    if cur: "currentShader l = Some p" "deref asShader d p = Inr s"
      and fit: "sizesMatch fs (getFragmentShaderConstantLocations s)"
      and ok: "hresults d = [] \<or> \<not> FAILED (hd (hresults d))"
      and mis: "\<not> sizesMatch vs (getVertexShaderConstantLocations s)"
  proof -
    let ?b = "getFragmentShaderConstantBuffer s"
    let ?n = "of_nat (4 * length (concat fs)) :: UINT"
    from fit have le: "\<not> length (getFragmentShaderConstantLocations s) < length fs"
      by (simp add: sizesMatch_def)
    note floop = constantsLoop_match [OF fit, of "''Invalid pixel shader constant size''" "[]"]
    from ok obtain d1 where
      up: "uploadBuffer ?b (concat fs) ?n d = (None, d1)"
      and c1: "calls d1 = calls d @ [Context_Map ?b, CopyBytes ?b (concat fs) ?n, Context_Unmap ?b]"
      by (cases "hresults d") (auto simp: uploadBuffer_def fallible_def call_def FAILED_def)
    let ?d2 = "call (PSSetConstantBuffers ?b) d1"
    have c2: "calls ?d2 = calls d @ [Context_Map ?b, CopyBytes ?b (concat fs) ?n,
        Context_Unmap ?b, PSSetConstantBuffers ?b]"
      using c1 by simp
    show ?thesis
    proof (cases "length (getVertexShaderConstantLocations s) < length vs")
      case True
      with cur le floop up c2 show ?thesis
        by (simp add: executeSetShaderConstants_def del: calls_call)
    next
      case False
      then have vle: "length vs \<le> length (getVertexShaderConstantLocations s)" by simp
      obtain r vdata where
        loop: "constantsLoop vs (getVertexShaderConstantLocations s)
                 ''Invalid vertex shader constant size'' [] = (r, vdata)"
        by (cases "constantsLoop vs (getVertexShaderConstantLocations s)
                 ''Invalid vertex shader constant size'' []") auto
      with constantsLoop_mismatch [OF vle mis, of "''Invalid vertex shader constant size''" "[]"]
      have "r = Some (Thrown (runtime_error ''Invalid vertex shader constant size''))" by simp
      with cur le floop up c2 False loop show ?thesis
        by (simp add: executeSetShaderConstants_def del: calls_call)
    qed
  qed
  show ?thesis using none frag vert by blast
qed

theorem shader_constants_checked_witness:
  "execute (SetShaderConstantsCommand [] []) initialLocals exampleDevice
     = (Some (Thrown (runtime_error ''No shader set'')), initialLocals, exampleDevice)
   \<and> (\<exists>l'. execute (SetShaderConstantsCommand [[0x3F800000, 0x3F800000]] [])
              (initialLocals\<lparr>currentShader := Some 29\<rparr>)
              (exampleDevice\<lparr>objects := [29 \<mapsto> exampleShader]\<rparr>)
          = (Some (Thrown (runtime_error ''Invalid pixel shader constant size'')), l',
             exampleDevice\<lparr>objects := [29 \<mapsto> exampleShader]\<rparr>))
   \<and> (\<exists>l' d'. execute (SetShaderConstantsCommand [[0x3F800000]] [[0x3F800000, 0x3F800000]])
              (initialLocals\<lparr>currentShader := Some 29\<rparr>)
              (exampleDevice\<lparr>objects := [29 \<mapsto> exampleShader]\<rparr>)
          = (Some (Thrown (runtime_error ''Invalid vertex shader constant size'')), l', d')
        \<and> calls d' = [Context_Map 33, CopyBytes 33 [0x3F800000] 4, Context_Unmap 33,
                       PSSetConstantBuffers 33])"
proof -
  let ?l = "initialLocals\<lparr>currentShader := Some 29\<rparr>"
  let ?d = "exampleDevice\<lparr>objects := [29 \<mapsto> exampleShader]\<rparr>"
  let ?s = "\<lparr>getFragmentShader = Some 30, getVertexShader = Some 31, getInputLayout = Some 32,
             getFragmentShaderConstantBuffer = 33, getVertexShaderConstantBuffer = 34,
             getFragmentShaderConstantLocations = [4], getVertexShaderConstantLocations = [4]\<rparr>"
  have a: "currentShader initialLocals = None" by (simp add: initialLocals_def)
  have b: "currentShader ?l = Some 29" by simp
  have c: "deref asShader ?d 29 = Inr ?s"
    by (simp add: deref_def asShader_def exampleShader_def)
  have m1: "\<not> sizesMatch [[0x3F800000, 0x3F800000]] (getFragmentShaderConstantLocations ?s)"
    by (simp add: sizesMatch_def)
  have m2: "sizesMatch [[0x3F800000]] (getFragmentShaderConstantLocations ?s)"
    by (simp add: sizesMatch_def)
  have m3: "\<not> sizesMatch [[0x3F800000, 0x3F800000]] (getVertexShaderConstantLocations ?s)"
    by (simp add: sizesMatch_def)
  have h: "hresults ?d = []" by simp
  from shader_constants_checked [where l = initialLocals and d = exampleDevice and fs = "[]"
      and vs = "[]"] a
  have 1: "execute (SetShaderConstantsCommand [] []) initialLocals exampleDevice
     = (Some (Thrown (runtime_error ''No shader set'')), initialLocals, exampleDevice)"
    by (simp del: execute.simps)
  from shader_constants_checked [where l = ?l and d = ?d and p = 29 and s = ?s
      and fs = "[[0x3F800000, 0x3F800000]]" and vs = "[]"] b c m1
  have 2: "\<exists>l'. execute (SetShaderConstantsCommand [[0x3F800000, 0x3F800000]] []) ?l ?d
          = (Some (Thrown (runtime_error ''Invalid pixel shader constant size'')), l', ?d)"
    by (simp del: execute.simps)
  from shader_constants_checked [where l = ?l and d = ?d and p = 29 and s = ?s
      and fs = "[[0x3F800000]]" and vs = "[[0x3F800000, 0x3F800000]]"] b c m2 m3 h
  have 3: "\<exists>l' d'. execute (SetShaderConstantsCommand [[0x3F800000]] [[0x3F800000, 0x3F800000]]) ?l ?d
          = (Some (Thrown (runtime_error ''Invalid vertex shader constant size'')), l', d')
        \<and> calls d' = [Context_Map 33, CopyBytes 33 [0x3F800000] 4, Context_Unmap 33,
                       PSSetConstantBuffers 33]"
    by (simp del: execute.simps)
  from 1 2 3 show ?thesis by blast
qed


section \<open>The resource table under commands\<close>

lemma resources_call [simp]: "resources (call c d) = resources d"
  by (simp add: call_def)


lemma resources_newObject: "newObject d = (a, d1) \<Longrightarrow> resources d1 = resources d"
  by (auto simp add: newObject_def)

lemma resources_release [simp]: "resources (release p d) = resources d"
  by (simp add: release_def split: option.splits)











lemma resources_makeUnique:
  "makeUnique r d = (a, d') \<Longrightarrow> resources d' = resources d"
  unfolding makeUnique_def
  by (auto simp: Let_def split: prod.splits dest!: resources_newObject)








lemma resources_foldl_call [simp]:
  "resources (foldl (\<lambda>d' x. call (g x) d') d xs) = resources d"
  by (induction xs arbitrary: d) auto








lemma populated_getResource:
  "populated d h = (\<exists>a r. getResource Some d h = Inr (Some (a, r)))"
  by (auto simp: populated_def slotObject_def getResource_def split: option.splits)





lemma heap_call [simp]:
  "objects (call c d) = objects d" "nextObject (call c d) = nextObject d"
  by (simp_all add: call_def)




















lemma heap_foldl_call [simp]:
  "objects (foldl (\<lambda>d' x. call (g x) d') d xs) = objects d"
  "nextObject (foldl (\<lambda>d' x. call (g x) d') d xs) = nextObject d"
  by (induction xs arbitrary: d) auto

lemma heap_release [simp]:
  "objects (release p d) = (case p of None \<Rightarrow> objects d | Some a0 \<Rightarrow> (objects d)(a0 := None))"
  "nextObject (release p d) = nextObject d"
  by (simp_all add: release_def split: option.splits)













end
